theory Spec2Isabelle
  imports Main
begin

section \<open>JavaScript strings and values\<close>

text \<open>
  A JavaScript string is a sequence of UTF-16 code units; a code unit is modelled by its
  number. String literals of the source are written \<open>str ''...''\<close>.
\<close>

type_synonym jsstring = "nat list"

definition str :: "string \<Rightarrow> jsstring" where
  "str s = map of_char s"

text \<open>
  The code units that \<open>String.prototype.trim\<close> strips and that \<open>\s\<close> matches in a regular
  expression: the WhiteSpace and LineTerminator code points of ECMAScript.
\<close>

definition is_ws :: "nat \<Rightarrow> bool" where
  "is_ws c \<longleftrightarrow>
     c = 9 \<or> c = 10 \<or> c = 11 \<or> c = 12 \<or> c = 13 \<or> c = 32 \<or> c = 160 \<or> c = 5760 \<or>
     (8192 \<le> c \<and> c \<le> 8202) \<or> c = 8232 \<or> c = 8233 \<or> c = 8239 \<or> c = 8287 \<or>
     c = 12288 \<or> c = 65279"

text \<open>\<open>s.trim()\<close>\<close>

definition trim :: "jsstring \<Rightarrow> jsstring" where
  "trim s = rev (dropWhile is_ws (rev (dropWhile is_ws s)))"

text \<open>
  \<open>s.split(/\s+/)\<close>: the pieces of \<open>s\<close> between the maximal runs of white space; a run at
  the start or at the end of \<open>s\<close> leaves an empty piece there, and the empty string gives
  the one piece \<open>''''\<close>.
\<close>

function split_ws :: "jsstring \<Rightarrow> jsstring list" where
  "split_ws s =
     (let piece = takeWhile (\<lambda>c. \<not> is_ws c) s;
          rest = dropWhile (\<lambda>c. \<not> is_ws c) s
      in if rest = [] then [piece] else piece # split_ws (dropWhile is_ws rest))"
  by pat_completeness auto
termination
proof (relation "measure length")
  fix s piece rest
  assume rest: "rest = dropWhile (\<lambda>c. \<not> is_ws c) s" and ne: "rest \<noteq> []"
  have "length (dropWhile is_ws rest) \<le> length rest"
    by (rule length_dropWhile_le)
  moreover have "is_ws (hd rest)"
    using rest ne hd_dropWhile [of "\<lambda>c. \<not> is_ws c" s] by auto
  then have "length (dropWhile is_ws rest) < length rest"
    using ne by (cases rest) (auto simp: le_imp_less_Suc length_dropWhile_le)
  moreover have "length rest \<le> length s"
    unfolding rest by (rule length_dropWhile_le)
  ultimately show "(dropWhile is_ws rest, s) \<in> measure length"
    by simp
qed simp

declare split_ws.simps [simp del]

text \<open>The values a payload can hold. Numbers are opaque leaves here.\<close>

datatype jsvalue =
    JUndefined
  | JNull
  | JBool bool
  | JNum int
  | JStr jsstring
  | JArr "jsvalue list"
  | JObj "(jsstring \<times> jsvalue) list"

section \<open>Word-Counter\<close>

text \<open>
  \<open>countWordsInRecord\<close>: an array sums its items, a non-null object sums its
  \<open>Object.values\<close>, a string counts \<open>payload.trim().split(/\s+/).filter(Boolean).length\<close>,
  anything else is 0.
\<close>

fun countWordsInRecord :: "jsvalue \<Rightarrow> nat" where
  "countWordsInRecord (JArr items) =
     foldl (\<lambda>acc item. acc + countWordsInRecord item) 0 items"
| "countWordsInRecord (JObj entries) =
     foldl (\<lambda>acc item. acc + countWordsInRecord item) 0 (map snd entries)"
| "countWordsInRecord (JStr payload) =
     length (filter (\<lambda>piece. piece \<noteq> []) (split_ws (trim payload)))"
| "countWordsInRecord _ = 0"


text \<open>
  The specification's reading of a string's word count: the number of maximal runs of
  non-white-space code units. A run ends at a non-white-space unit that is the last unit
  or is followed by white space; \<open>token_count\<close> counts those ends.
\<close>

fun token_count :: "jsstring \<Rightarrow> nat" where
  "token_count [] = 0"
| "token_count [c] = (if is_ws c then 0 else 1)"
| "token_count (c # d # s) =
     (if \<not> is_ws c \<and> is_ws d then 1 else 0) + token_count (d # s)"

text \<open>The leaf strings reachable through nested arrays and objects, in visiting order.\<close>

fun leaf_strings :: "jsvalue \<Rightarrow> jsstring list" where
  "leaf_strings (JStr s) = [s]"
| "leaf_strings (JArr items) = concat (map leaf_strings items)"
| "leaf_strings (JObj entries) = concat (map (\<lambda>e. leaf_strings (snd e)) entries)"
| "leaf_strings _ = []"

section \<open>Objects with string values\<close>

text \<open>
  An object is the list of its own enumerable properties in property order, as
  \<open>Object.entries\<close> returns them: array-index keys first, in ascending numeric order, then
  the other keys in the order of their creation.
\<close>

type_synonym 'v jsobject = "(jsstring \<times> 'v) list"

type_synonym chunk = "jsstring jsobject"

definition is_digit :: "nat \<Rightarrow> bool" where
  "is_digit c \<longleftrightarrow> 48 \<le> c \<and> c \<le> 57"

definition decimal_value :: "jsstring \<Rightarrow> nat" where
  "decimal_value ds = foldl (\<lambda>n c. 10 * n + (c - 48)) 0 ds"

text \<open>The decimal rendering of a non-negative integer, as a template literal prints it.\<close>

fun show_nat :: "nat \<Rightarrow> jsstring" where
  "show_nat n = (if n < 10 then [48 + n] else show_nat (n div 10) @ [48 + n mod 10])"

declare show_nat.simps [simp del]

text \<open>A key is an array index when it is the canonical decimal string of an integer below \<open>2^32 - 1\<close>.\<close>

definition is_array_index :: "jsstring \<Rightarrow> bool" where
  "is_array_index k \<longleftrightarrow>
     k \<noteq> [] \<and> list_all is_digit k \<and> (k = [48] \<or> hd k \<noteq> 48) \<and> decimal_value k < 4294967295"

fun insert_indexed :: "jsstring \<Rightarrow> 'v \<Rightarrow> 'v jsobject \<Rightarrow> 'v jsobject" where
  "insert_indexed k v [] = [(k, v)]"
| "insert_indexed k v ((k', v') # rest) =
     (if is_array_index k' \<and> decimal_value k' < decimal_value k
      then (k', v') # insert_indexed k v rest
      else (k, v) # (k', v') # rest)"

text \<open>
  \<open>obj[key] = value\<close> for a string \<open>value\<close> on a plain object: an existing property keeps
  its place and takes the value, a new one is created at its place in property order. In
  Deno \<open>Object.prototype\<close> has no \<open>__proto__\<close> accessor, so \<open>__proto__\<close> is a key like any
  other.
\<close>

definition set_property :: "chunk \<Rightarrow> jsstring \<Rightarrow> jsstring \<Rightarrow> chunk" where
  "set_property obj key v =
     (if key \<in> set (map fst obj)
        then map (\<lambda>(k', v'). if k' = key then (k', v) else (k', v')) obj
      else if is_array_index key then insert_indexed key v obj
      else obj @ [(key, v)])"

text \<open>\<open>Object.assign(target, source)\<close> and \<open>Object.assign({}, ...sources)\<close>.\<close>

definition object_assign :: "chunk \<Rightarrow> chunk \<Rightarrow> chunk" where
  "object_assign target source = foldl (\<lambda>t (k, v). set_property t k v) target source"

definition object_assign_all :: "chunk list \<Rightarrow> chunk" where
  "object_assign_all sources = foldl object_assign [] sources"

text \<open>A record of strings seen as a payload of values.\<close>

definition as_payload :: "chunk \<Rightarrow> jsvalue jsobject" where
  "as_payload c = map (\<lambda>(k, s). (k, JStr s)) c"

section \<open>Engine configuration\<close>

datatype js_error = Error jsstring | TypeError jsstring

fun message :: "js_error \<Rightarrow> jsstring" where
  "message (Error m) = m"
| "message (TypeError m) = m"

record EngineParams =
  apiKey :: jsstring
  apiUrl :: jsstring
  batchSize :: int
  idealBatchItemSize :: int

text \<open>\<open>Partial<EngineParams>\<close>: every field may be missing.\<close>

record PartialEngineParams =
  given_apiKey :: "jsstring option"
  given_apiUrl :: "jsstring option"
  given_batchSize :: "int option"
  given_idealBatchItemSize :: "int option"

text \<open>\<open>a ?? d\<close> on an optional field, and \<open>n || d\<close> on a number.\<close>

definition nullish_or :: "'a option \<Rightarrow> 'a \<Rightarrow> 'a" where
  "nullish_or a d = (case a of None \<Rightarrow> d | Some x \<Rightarrow> x)"

definition number_or :: "int \<Rightarrow> int \<Rightarrow> int" where
  "number_or n d = (if n = 0 then d else n)"

definition validateEngineParams :: "PartialEngineParams \<Rightarrow> js_error + EngineParams" where
  "validateEngineParams config =
     (case given_apiKey config of
        None \<Rightarrow> Inl (Error (str ''apiKey is required''))
      | Some key \<Rightarrow>
          if key = [] then Inl (Error (str ''apiKey is required''))
          else Inr \<lparr> apiKey = key,
                     apiUrl = nullish_or (given_apiUrl config) (str ''https://engine.lingo.dev''),
                     batchSize = nullish_or (given_batchSize config) 25,
                     idealBatchItemSize = nullish_or (given_idealBatchItemSize config) 250 \<rparr>)"

text \<open>The constructor stores the validated configuration, or throws.\<close>

definition new_LingoDotDevEngine :: "PartialEngineParams \<Rightarrow> js_error + EngineParams" where
  "new_LingoDotDevEngine config = validateEngineParams config"

section \<open>Chunker\<close>

text \<open>
  The loop of \<open>extractPayloadChunks\<close> over \<open>Object.entries(payload)\<close>: the entries still to
  visit, \<open>currentChunk\<close>, \<open>currentChunkItemCount\<close> and \<open>result\<close>. The test
  \<open>i === payloadEntries.length - 1\<close> holds when no entry is left after the current one.
\<close>

fun extract_loop ::
  "EngineParams \<Rightarrow> jsvalue jsobject \<Rightarrow> chunk \<Rightarrow> nat \<Rightarrow> chunk list \<Rightarrow> chunk list" where
  "extract_loop cfg [] currentChunk currentChunkItemCount result = result"
| "extract_loop cfg ((key, v) # rest) currentChunk currentChunkItemCount result =
     (case v of
        JStr s \<Rightarrow>
          (let currentChunk' = set_property currentChunk key s;
               currentChunkItemCount' = currentChunkItemCount + 1;
               currentChunkSize = countWordsInRecord (JObj (as_payload currentChunk'))
           in if int currentChunkSize > number_or (idealBatchItemSize cfg) 250 \<or>
                 int currentChunkItemCount' \<ge> number_or (batchSize cfg) 25 \<or>
                 rest = []
              then extract_loop cfg rest [] 0 (result @ [currentChunk'])
              else extract_loop cfg rest currentChunk' currentChunkItemCount' result)
      | _ \<Rightarrow> extract_loop cfg rest currentChunk currentChunkItemCount result)"

definition extractPayloadChunks :: "EngineParams \<Rightarrow> jsvalue jsobject \<Rightarrow> chunk list" where
  "extractPayloadChunks cfg payload = extract_loop cfg payload [] 0 []"


text \<open>
  The specification's reading of the Chunker's input: the string-valued entries of the
  payload, in their order.
\<close>

fun string_entries :: "jsvalue jsobject \<Rightarrow> chunk" where
  "string_entries [] = []"
| "string_entries ((key, JStr s) # rest) = (key, s) # string_entries rest"
| "string_entries ((key, v) # rest) = string_entries rest"

definition is_string :: "jsvalue \<Rightarrow> bool" where
  "is_string v = (case v of JStr s \<Rightarrow> True | _ \<Rightarrow> False)"

text \<open>A key that is created at the end of an object: not an array index.\<close>

definition ordinary_key :: "jsstring \<Rightarrow> bool" where
  "ordinary_key key \<longleftrightarrow> \<not> is_array_index key"

section \<open>Chunk Translator Client\<close>

record LocalizationParams =
  sourceLocale :: "jsstring option"
  targetLocale :: jsstring
  fast :: "bool option"
  reference :: "jsvalue option"
  hints :: "jsvalue option"

text \<open>What \<open>localizeChunk\<close> hands to \<open>fetch\<close>: the URL, the Authorization header and the body.\<close>

record i18n_request =
  request_url :: jsstring
  request_authorization :: jsstring
  request_workflowId :: jsstring
  request_fast :: bool
  request_source :: "jsstring option"
  request_target :: jsstring
  request_data :: chunk
  request_reference :: "jsvalue option"
  request_hints :: "jsvalue option"

text \<open>
  A response: its status line, its body as \<open>res.text()\<close> gives it and as \<open>res.json()\<close> parses
  it. \<open>fetch\<close> either rejects with an error or resolves with a response.
\<close>

record 'b response =
  status :: nat
  statusText :: jsstring
  bodyText :: jsstring
  bodyJson :: 'b

datatype 'b fetch_result = Rejected js_error | Responded "'b response"

definition ok :: "'b response \<Rightarrow> bool" where
  "ok res \<longleftrightarrow> 200 \<le> status res \<and> status res \<le> 299"

text \<open>
  The JSON body of the \<open>/i18n\<close> endpoint: \<open>{data?: Record<string, string>, error?: string}\<close>.
  An object is truthy, the empty string is falsy, a missing field is \<open>undefined\<close>.
\<close>

record i18n_body =
  body_data :: "chunk option"
  body_error :: "jsstring option"

definition truthy_string :: "jsstring option \<Rightarrow> bool" where
  "truthy_string s = (case s of None \<Rightarrow> False | Some x \<Rightarrow> x \<noteq> [])"

definition truthy_object :: "'a option \<Rightarrow> bool" where
  "truthy_object x = (case x of None \<Rightarrow> False | Some _ \<Rightarrow> True)"

definition build_request ::
  "EngineParams \<Rightarrow> jsstring option \<Rightarrow> jsstring \<Rightarrow> chunk \<Rightarrow> jsvalue option \<Rightarrow> jsvalue option \<Rightarrow>
   jsstring \<Rightarrow> bool \<Rightarrow> i18n_request" where
  "build_request cfg source target payload_data payload_reference payload_hints workflowId fastMode =
     \<lparr> request_url = apiUrl cfg @ str ''/i18n'',
       request_authorization = str ''Bearer '' @ apiKey cfg,
       request_workflowId = workflowId,
       request_fast = fastMode,
       request_source = source,
       request_target = target,
       request_data = payload_data,
       request_reference = payload_reference,
       request_hints = payload_hints \<rparr>"

definition localizeChunk ::
  "EngineParams \<Rightarrow> (i18n_request \<Rightarrow> i18n_body fetch_result) \<Rightarrow> jsstring option \<Rightarrow> jsstring \<Rightarrow>
   chunk \<Rightarrow> jsvalue option \<Rightarrow> jsvalue option \<Rightarrow> jsstring \<Rightarrow> bool \<Rightarrow> js_error + chunk" where
  "localizeChunk cfg fetch source target payload_data payload_reference payload_hints workflowId fastMode =
     (case fetch (build_request cfg source target payload_data payload_reference payload_hints
                    workflowId fastMode) of
        Rejected e \<Rightarrow> Inl e
      | Responded res \<Rightarrow>
          if \<not> ok res then
            (if status res \<ge> 500 \<and> status res < 600 then
               Inl (Error (str ''Server error ('' @ show_nat (status res) @ str ''): '' @
                           statusText res @ str ''. '' @ bodyText res @
                           str ''. This may be due to temporary service issues.''))
             else if status res = 400 then
               Inl (Error (str ''Invalid request: '' @ statusText res))
             else Inl (Error (bodyText res)))
          else
            (let jsonResponse = bodyJson res
             in if \<not> truthy_object (body_data jsonResponse) \<and> truthy_string (body_error jsonResponse)
                then Inl (Error (nullish_or (body_error jsonResponse) []))
                else Inr (nullish_or (body_data jsonResponse) [])))"

section \<open>Localization Orchestrator\<close>

text \<open>
  The remote service: the outcome of the \<open>i\<close>-th request of a call (counted from 0), given
  the request. The workflow id that \<open>createId\<close> draws at random is an argument.
\<close>

type_synonym remote = "nat \<Rightarrow> i18n_request \<Rightarrow> i18n_body fetch_result"

text \<open>
  The loop of \<open>_localizeRaw\<close>, called without a progress callback: the index \<open>i\<close>, the chunks
  still to send, \<open>processedPayloadChunks\<close>, and the requests sent so far. A failed chunk
  ends the call.
\<close>

fun localize_loop ::
  "EngineParams \<Rightarrow> remote \<Rightarrow> jsstring \<Rightarrow> LocalizationParams \<Rightarrow> nat \<Rightarrow> chunk list \<Rightarrow> chunk list \<Rightarrow>
   i18n_request list \<Rightarrow> (js_error + chunk list) \<times> i18n_request list" where
  "localize_loop cfg remote workflowId params i [] processedPayloadChunks sent =
     (Inr processedPayloadChunks, sent)"
| "localize_loop cfg remote workflowId params i (chunk # rest) processedPayloadChunks sent =
     (let fastMode = (case fast params of None \<Rightarrow> False | Some b \<Rightarrow> b);
          request = build_request cfg (sourceLocale params) (targetLocale params) chunk
                      (reference params) (hints params) workflowId fastMode
      in case localizeChunk cfg (remote i) (sourceLocale params) (targetLocale params) chunk
                (reference params) (hints params) workflowId fastMode of
           Inl e \<Rightarrow> (Inl e, sent @ [request])
         | Inr processedPayloadChunk \<Rightarrow>
             localize_loop cfg remote workflowId params (i + 1) rest
               (processedPayloadChunks @ [processedPayloadChunk]) (sent @ [request]))"

text \<open>
  \<open>_localizeRaw\<close> returns the merged record or the error thrown, together with the
  requests it sent.
\<close>

definition localizeRaw ::
  "EngineParams \<Rightarrow> remote \<Rightarrow> jsstring \<Rightarrow> jsvalue jsobject \<Rightarrow> LocalizationParams \<Rightarrow>
   (js_error + chunk) \<times> i18n_request list" where
  "localizeRaw cfg remote workflowId payload params =
     (if targetLocale params = [] then (Inl (Error (str ''targetLocale is required'')), [])
      else
        (case localize_loop cfg remote workflowId params 0 (extractPayloadChunks cfg payload) [] [] of
           (Inl e, sent) \<Rightarrow> (Inl e, sent)
         | (Inr processedPayloadChunks, sent) \<Rightarrow>
             (Inr (object_assign_all processedPayloadChunks), sent)))"

definition localizeObject ::
  "EngineParams \<Rightarrow> remote \<Rightarrow> jsstring \<Rightarrow> jsvalue jsobject \<Rightarrow> LocalizationParams \<Rightarrow>
   (js_error + chunk) \<times> i18n_request list" where
  "localizeObject cfg remote workflowId obj params = localizeRaw cfg remote workflowId obj params"

text \<open>\<open>strings.reduce((acc, str, i) => { acc[`item_${i}`] = str; return acc }, {})\<close>\<close>

definition keyed_record :: "string \<Rightarrow> jsstring list \<Rightarrow> chunk" where
  "keyed_record prefix strings =
     foldl (\<lambda>acc (i, s). set_property acc (str prefix @ show_nat i) s) [] (enumerate 0 strings)"

definition localizeStringArray ::
  "EngineParams \<Rightarrow> remote \<Rightarrow> jsstring \<Rightarrow> jsstring list \<Rightarrow> LocalizationParams \<Rightarrow>
   (js_error + jsstring list) \<times> i18n_request list" where
  "localizeStringArray cfg remote workflowId strings params =
     (let mapped = keyed_record ''item_'' strings
      in case localizeObject cfg remote workflowId (as_payload mapped) params of
           (Inl e, sent) \<Rightarrow> (Inl e, sent)
         | (Inr result, sent) \<Rightarrow> (Inr (map snd result), sent))"

subsection \<open>Chat\<close>

record chat_message =
  chat_name :: jsstring
  chat_text :: jsstring

text \<open>\<open>key.split("_")\<close>: the pieces of \<open>key\<close> between the separators.\<close>

fun split_on :: "nat \<Rightarrow> jsstring \<Rightarrow> jsstring list" where
  "split_on sep [] = [[]]"
| "split_on sep (c # s) =
     (if c = sep then [] # split_on sep s
      else (case split_on sep s of [] \<Rightarrow> [[c]] | piece # pieces \<Rightarrow> (c # piece) # pieces))"

text \<open>\<open>xs[i]\<close> for a position \<open>i\<close>: \<open>undefined\<close> past the end.\<close>

definition element_at :: "'a list \<Rightarrow> nat \<Rightarrow> 'a option" where
  "element_at xs i = (if i < length xs then Some (xs ! i) else None)"

text \<open>
  \<open>parseInt(s)\<close> with no radix; \<open>None\<close> is \<open>NaN\<close>. Leading white space is skipped, a sign is
  read, \<open>0x\<close> or \<open>0X\<close> selects radix 16, and the longest run of digits of the radix is the
  value. An \<open>undefined\<close> argument reads as the text \<open>undefined\<close> and gives \<open>NaN\<close>.
\<close>

definition is_radix_digit :: "nat \<Rightarrow> nat \<Rightarrow> bool" where
  "is_radix_digit radix c \<longleftrightarrow>
     is_digit c \<or> (radix = 16 \<and> ((97 \<le> c \<and> c \<le> 102) \<or> (65 \<le> c \<and> c \<le> 70)))"

definition radix_digit_value :: "nat \<Rightarrow> nat" where
  "radix_digit_value c = (if is_digit c then c - 48 else if 97 \<le> c then c - 87 else c - 55)"

definition parseInt :: "jsstring option \<Rightarrow> int option" where
  "parseInt input =
     (case input of
        None \<Rightarrow> None
      | Some inputString \<Rightarrow>
          (let s = dropWhile is_ws inputString;
               negative = (s \<noteq> [] \<and> hd s = 45);
               s1 = (if s \<noteq> [] \<and> (hd s = 43 \<or> hd s = 45) then tl s else s);
               hex = (length s1 \<ge> 2 \<and> hd s1 = 48 \<and> (hd (tl s1) = 120 \<or> hd (tl s1) = 88));
               radix = (if hex then 16 else 10);
               s2 = (if hex then drop 2 s1 else s1);
               z = takeWhile (is_radix_digit radix) s2;
               mathInt = foldl (\<lambda>n c. radix * n + radix_digit_value c) 0 z
           in if z = [] then None
              else Some (if negative then - int mathInt else int mathInt)))"

text \<open>
  \<open>chat[n]\<close> for the number \<open>n\<close> that \<open>parseInt\<close> returned: an element for an integer within
  the array (\<open>-0\<close> is 0), \<open>undefined\<close> otherwise.
\<close>

definition chat_at :: "chat_message list \<Rightarrow> int option \<Rightarrow> chat_message option" where
  "chat_at chat n =
     (case n of
        None \<Rightarrow> None
      | Some i \<Rightarrow> if 0 \<le> i \<and> i < int (length chat) then Some (chat ! nat i) else None)"

text \<open>
  \<open>Object.entries(localized).map(([key, value]) => ({ name: chat[parseInt(key.split("_")[1])].name,
  text: value }))\<close>: reading \<open>name\<close> of \<open>undefined\<close> throws a TypeError, and \<open>map\<close> stops there.
\<close>

definition undefined_name_error :: js_error where
  "undefined_name_error = TypeError (str ''Cannot read properties of undefined (reading 'name')'')"

text \<open>\<open>parseInt(key.split("_")[1])\<close>\<close>

definition parsed_index :: "jsstring \<Rightarrow> int option" where
  "parsed_index key = parseInt (element_at (split_on 95 key) 1)"

fun rebuild_chat :: "chat_message list \<Rightarrow> chunk \<Rightarrow> js_error + chat_message list" where
  "rebuild_chat chat [] = Inr []"
| "rebuild_chat chat ((key, v) # rest) =
     (case chat_at chat (parsed_index key) of
        None \<Rightarrow> Inl undefined_name_error
      | Some m \<Rightarrow>
          (case rebuild_chat chat rest of
             Inl e \<Rightarrow> Inl e
           | Inr out \<Rightarrow> Inr (\<lparr> chat_name = chat_name m, chat_text = v \<rparr> # out)))"

definition localizeChat ::
  "EngineParams \<Rightarrow> remote \<Rightarrow> jsstring \<Rightarrow> chat_message list \<Rightarrow> LocalizationParams \<Rightarrow>
   (js_error + chat_message list) \<times> i18n_request list" where
  "localizeChat cfg remote workflowId chat params =
     (let chatRecord = keyed_record ''chat_'' (map chat_text chat)
      in case localizeRaw cfg remote workflowId (as_payload chatRecord) params of
           (Inl e, sent) \<Rightarrow> (Inl e, sent)
         | (Inr localized, sent) \<Rightarrow> (rebuild_chat chat localized, sent))"

subsection \<open>Identity lookup\<close>

text \<open>The JSON body of \<open>/whoami\<close>: \<open>null\<close>, or an object that may carry \<open>email\<close> and \<open>id\<close>.\<close>

record whoami_payload =
  payload_email :: "jsstring option"
  payload_id :: "jsstring option"

record whoami_user =
  user_email :: jsstring
  user_id :: "jsstring option"

record whoami_request =
  whoami_url :: jsstring
  whoami_authorization :: jsstring

text \<open>\<open>haystack.includes(needle)\<close>\<close>

fun string_includes :: "jsstring \<Rightarrow> jsstring \<Rightarrow> bool" where
  "string_includes [] needle = (needle = [])"
| "string_includes (c # s) needle =
     (take (length needle) (c # s) = needle \<or> string_includes s needle)"

text \<open>The body of the \<open>try\<close> block of \<open>whoami\<close>.\<close>

definition whoami_try ::
  "EngineParams \<Rightarrow> (whoami_request \<Rightarrow> whoami_payload option fetch_result) \<Rightarrow>
   js_error + whoami_user option" where
  "whoami_try cfg fetch =
     (case fetch \<lparr> whoami_url = apiUrl cfg @ str ''/whoami'',
                   whoami_authorization = str ''Bearer '' @ apiKey cfg \<rparr> of
        Rejected e \<Rightarrow> Inl e
      | Responded res \<Rightarrow>
          if ok res then
            (case bodyJson res of
               None \<Rightarrow> Inr None
             | Some payload \<Rightarrow>
                 if \<not> truthy_string (payload_email payload) then Inr None
                 else Inr (Some \<lparr> user_email = nullish_or (payload_email payload) [],
                                  user_id = payload_id payload \<rparr>))
          else if status res \<ge> 500 \<and> status res < 600 then
            Inl (Error (str ''Server error ('' @ show_nat (status res) @ str ''): '' @
                        statusText res @ str ''. This may be due to temporary service issues.''))
          else Inr None)"

text \<open>The \<open>catch\<close> block rethrows an error whose message includes \<open>Server error\<close>.\<close>

definition whoami ::
  "EngineParams \<Rightarrow> (whoami_request \<Rightarrow> whoami_payload option fetch_result) \<Rightarrow>
   js_error + whoami_user option" where
  "whoami cfg fetch =
     (case whoami_try cfg fetch of
        Inl e \<Rightarrow> if string_includes (message e) (str ''Server error'') then Inl e else Inr None
      | Inr r \<Rightarrow> Inr r)"


section \<open>HTML fallback: extraction and substitution on the raw markup\<close>

text \<open>
  \<open>localizeHtml\<close> hands the document to \<open>localizeHtmlSimple\<close> when the runtime defines no
  \<open>DOMParser\<close>. The fallback works on the markup as a string, with regular expressions.
  Each expression of the source is rendered as a matcher: given the text from a position
  on, the length of the match that starts there and its capture groups, or \<open>None\<close>.
\<close>

type_synonym matcher = "jsstring \<Rightarrow> (nat \<times> jsstring list) option"

text \<open>
  Matching with the flag \<open>i\<close> and without \<open>u\<close>: an ASCII letter of the pattern matches its
  two cases and nothing else.
\<close>

definition ascii_lower :: "nat \<Rightarrow> nat" where
  "ascii_lower c = (if 65 \<le> c \<and> c \<le> 90 then c + 32 else c)"

fun ci_prefix :: "jsstring \<Rightarrow> jsstring \<Rightarrow> bool" where
  "ci_prefix [] s = True"
| "ci_prefix (p # ps) [] = False"
| "ci_prefix (p # ps) (c # cs) = (ascii_lower p = ascii_lower c \<and> ci_prefix ps cs)"

text \<open>The position of the first occurrence of a pattern, case-insensitively.\<close>

fun find_ci :: "jsstring \<Rightarrow> jsstring \<Rightarrow> nat option" where
  "find_ci pat [] = (if pat = [] then Some 0 else None)"
| "find_ci pat (c # s) =
     (if ci_prefix pat (c # s) then Some 0
      else (case find_ci pat s of None \<Rightarrow> None | Some q \<Rightarrow> Some (q + 1)))"

definition is_word_char :: "nat \<Rightarrow> bool" where
  "is_word_char c \<longleftrightarrow>
     (48 \<le> c \<and> c \<le> 57) \<or> (65 \<le> c \<and> c \<le> 90) \<or> (97 \<le> c \<and> c \<le> 122) \<or> c = 95"

text \<open>
  \<open>/<script\b[^<]*(?:(?!<\/script>)<[^<]*)*<\/script>/gi\<close>, and the same for \<open>style\<close>: the
  opening \<open><tag\<close> at a word boundary, then everything up to and including the first
  closing \<open></tag>\<close>. The loop of the expression stops at the first \<open><\<close> that starts the
  closing tag, and no shorter or longer choice can match.
\<close>

definition block_matcher :: "string \<Rightarrow> matcher" where
  "block_matcher tag s =
     (let opening = str ''<'' @ str tag; closing = str ''</'' @ str tag @ str ''>'';
          rest = drop (length opening) s
      in if ci_prefix opening s \<and> (rest = [] \<or> \<not> is_word_char (hd rest))
         then (case find_ci closing rest of
                 None \<Rightarrow> None
               | Some q \<Rightarrow> Some (length opening + q + length closing, []))
         else None)"

text \<open>\<open>/>([^<]+)</g\<close>: a \<open>>\<close>, one or more units other than \<open><\<close>, and a \<open><\<close>.\<close>

definition text_matcher :: matcher where
  "text_matcher s =
     (if s \<noteq> [] \<and> hd s = 62
      then (let body = takeWhile (\<lambda>c. c \<noteq> 60) (tl s)
            in if body \<noteq> [] \<and> length body < length (tl s)
               then Some (length body + 2, [body]) else None)
      else None)"

text \<open>\<open>/title="([^"]+)"/gi\<close> and its siblings for \<open>alt\<close>, \<open>placeholder\<close> and \<open>content\<close>.\<close>

definition attribute_matcher :: "string \<Rightarrow> matcher" where
  "attribute_matcher attr s =
     (let opening = str attr @ [61, 34]; rest = drop (length opening) s;
          v = takeWhile (\<lambda>c. c \<noteq> 34) rest
      in if ci_prefix opening s \<and> v \<noteq> [] \<and> length v < length rest
         then Some (length opening + length v + 1, [v]) else None)"

text \<open>\<open>/<html([^>]*)>/i\<close>\<close>

definition html_tag_matcher :: matcher where
  "html_tag_matcher s =
     (let rest = drop 5 s; attrs = takeWhile (\<lambda>c. c \<noteq> 62) rest
      in if ci_prefix (str ''<html'') s \<and> length attrs < length rest
         then Some (5 + length attrs + 1, [attrs]) else None)"

text \<open>
  \<open>new RegExp(escapedOriginal, "g")\<close>: every character with a meaning in a pattern has been
  escaped, so the expression matches the original value literally.
\<close>

definition literal_matcher :: "jsstring \<Rightarrow> matcher" where
  "literal_matcher original s =
     (if original \<noteq> [] \<and> take (length original) s = original
      then Some (length original, []) else None)"

text \<open>
  All matches of a global expression, left to right and without overlap, each with its
  position, its length and its captures: \<open>skip\<close> counts the units of the last match still
  to pass.
\<close>

fun all_matches :: "matcher \<Rightarrow> nat \<Rightarrow> nat \<Rightarrow> jsstring \<Rightarrow> (nat \<times> nat \<times> jsstring list) list" where
  "all_matches m skip pos [] = []"
| "all_matches m skip pos (c # rest) =
     (if skip > 0 then all_matches m (skip - 1) (pos + 1) rest
      else (case m (c # rest) of
              None \<Rightarrow> all_matches m 0 (pos + 1) rest
            | Some (n, captures) \<Rightarrow> (pos, n, captures) # all_matches m (n - 1) (pos + 1) rest))"

text \<open>
  \<open>GetSubstitution\<close>: the text a replacement template stands for at one match. \<open>$$\<close> is a
  dollar, \<open>$&\<close> the match, \<open>$`\<close> and \<open>$'\<close> the text before and after it, \<open>$n\<close> and \<open>$nn\<close> a
  capture when there is one of that number; any other \<open>$\<close> stands for itself.
\<close>

fun get_substitution ::
  "jsstring \<Rightarrow> jsstring \<Rightarrow> jsstring \<Rightarrow> jsstring list \<Rightarrow> jsstring \<Rightarrow> jsstring" where
  "get_substitution matched preceding following captures [] = []"
| "get_substitution matched preceding following captures [c] = [c]"
| "get_substitution matched preceding following captures [c, d] =
     (if c \<noteq> 36 then c # get_substitution matched preceding following captures [d]
      else if d = 36 then [36]
      else if d = 38 then matched
      else if d = 96 then preceding
      else if d = 39 then following
      else if is_digit d \<and> 1 \<le> d - 48 \<and> d - 48 \<le> length captures then captures ! (d - 48 - 1)
      else [36, d])"
| "get_substitution matched preceding following captures (c # d # e # rest) =
     (if c \<noteq> 36 then c # get_substitution matched preceding following captures (d # e # rest)
      else if d = 36 then 36 # get_substitution matched preceding following captures (e # rest)
      else if d = 38 then matched @ get_substitution matched preceding following captures (e # rest)
      else if d = 96 then preceding @ get_substitution matched preceding following captures (e # rest)
      else if d = 39 then following @ get_substitution matched preceding following captures (e # rest)
      else if is_digit d \<and> is_digit e \<and> 1 \<le> 10 * (d - 48) + (e - 48) \<and>
              10 * (d - 48) + (e - 48) \<le> length captures
        then captures ! (10 * (d - 48) + (e - 48) - 1) @
             get_substitution matched preceding following captures rest
      else if is_digit d \<and> 1 \<le> d - 48 \<and> d - 48 \<le> length captures
        then captures ! (d - 48 - 1) @ get_substitution matched preceding following captures (e # rest)
      else 36 # get_substitution matched preceding following captures (d # e # rest))"

text \<open>
  \<open>s.replace(expression, template)\<close> from a list of matches of \<open>s\<close>: the text between the
  matches is kept, each match gives way to its substitution.
\<close>

fun splice :: "jsstring \<Rightarrow> jsstring \<Rightarrow> nat \<Rightarrow> (nat \<times> nat \<times> jsstring list) list \<Rightarrow> jsstring" where
  "splice template s cursor [] = drop cursor s"
| "splice template s cursor ((pos, n, captures) # matches) =
     take (pos - cursor) (drop cursor s) @
     get_substitution (take n (drop pos s)) (take pos s) (drop (pos + n) s) captures template @
     splice template s (pos + n) matches"

definition replace_all :: "matcher \<Rightarrow> jsstring \<Rightarrow> jsstring \<Rightarrow> jsstring" where
  "replace_all m template s = splice template s 0 (all_matches m 0 0 s)"

definition replace_first :: "matcher \<Rightarrow> jsstring \<Rightarrow> jsstring \<Rightarrow> jsstring" where
  "replace_first m template s = splice template s 0 (take 1 (all_matches m 0 0 s))"

text \<open>The first capture of every match: what the loops over the matches read.\<close>

definition first_captures :: "matcher \<Rightarrow> jsstring \<Rightarrow> jsstring list" where
  "first_captures m s = map (\<lambda>(pos, n, captures). hd captures) (all_matches m 0 0 s)"

text \<open>
  The extraction: the text between tags of the markup without its script and style
  blocks, trimmed and kept when not empty, under \<open>text_<counter>\<close>; then the values of the
  four attribute patterns, matched on the whole markup, under
  \<open>attr_<patternIndex>_<counter>\<close>. The state is \<open>extractedContent\<close> and \<open>counter\<close>.
\<close>

definition add_text :: "chunk \<times> nat \<Rightarrow> jsstring \<Rightarrow> chunk \<times> nat" where
  "add_text state matched =
     (let t = trim matched
      in if t \<noteq> [] then (set_property (fst state) (str ''text_'' @ show_nat (snd state)) t,
                            snd state + 1)
         else state)"

definition add_attribute :: "nat \<Rightarrow> chunk \<times> nat \<Rightarrow> jsstring \<Rightarrow> chunk \<times> nat" where
  "add_attribute patternIndex state v =
     (if v \<noteq> [] \<and> trim v \<noteq> []
      then (set_property (fst state)
              (str ''attr_'' @ show_nat patternIndex @ str ''_'' @ show_nat (snd state)) v,
            snd state + 1)
      else state)"

definition attributePatterns :: "string list" where
  "attributePatterns = [''title'', ''alt'', ''placeholder'', ''content'']"

definition extract_content :: "jsstring \<Rightarrow> chunk" where
  "extract_content html =
     (let tempHtml = replace_all (block_matcher ''script'') [] html;
          tempHtml' = replace_all (block_matcher ''style'') [] tempHtml;
          texts = foldl add_text ([], 0) (first_captures text_matcher tempHtml');
          attrs = foldl (\<lambda>state (patternIndex, attr).
                           foldl (add_attribute patternIndex) state
                             (first_captures (attribute_matcher attr) html))
                    texts (enumerate 0 attributePatterns)
      in fst attrs)"

text \<open>
  \<open>extractedContent[key]\<close>: an own property, a member of \<open>Object.prototype\<close>, or \<open>undefined\<close>.
  An inherited member is truthy and has no \<open>replace\<close>, so the call on it throws.
\<close>

definition object_prototype_keys :: "jsstring list" where
  "object_prototype_keys =
     map str [''constructor'', ''hasOwnProperty'', ''isPrototypeOf'', ''propertyIsEnumerable'',
              ''toLocaleString'', ''toString'', ''valueOf'', ''__defineGetter__'',
              ''__defineSetter__'', ''__lookupGetter__'', ''__lookupSetter__'']"

definition not_a_function_error :: js_error where
  "not_a_function_error = TypeError (str ''originalValue.replace is not a function'')"

text \<open>The loop that writes the translations back, over the entries of \<open>localizedContent\<close>.\<close>

fun substitute_entries :: "chunk \<Rightarrow> chunk \<Rightarrow> jsstring \<Rightarrow> js_error + jsstring" where
  "substitute_entries extractedContent [] localizedHtml = Inr localizedHtml"
| "substitute_entries extractedContent ((key, v) # rest) localizedHtml =
     (case map_of extractedContent key of
        Some originalValue \<Rightarrow>
          if originalValue \<noteq> []
          then substitute_entries extractedContent rest
                 (replace_all (literal_matcher originalValue) v localizedHtml)
          else substitute_entries extractedContent rest localizedHtml
      | None \<Rightarrow>
          if key \<in> set object_prototype_keys then Inl not_a_function_error
          else substitute_entries extractedContent rest localizedHtml)"

definition localizeHtmlSimple ::
  "EngineParams \<Rightarrow> remote \<Rightarrow> jsstring \<Rightarrow> jsstring \<Rightarrow> LocalizationParams \<Rightarrow>
   (js_error + jsstring) \<times> i18n_request list" where
  "localizeHtmlSimple cfg remote workflowId html params =
     (let extractedContent = extract_content html
      in case localizeRaw cfg remote workflowId (as_payload extractedContent) params of
           (Inl e, sent) \<Rightarrow> (Inl e, sent)
         | (Inr localizedContent, sent) \<Rightarrow>
             (substitute_entries extractedContent localizedContent
                (replace_first html_tag_matcher
                   (str ''<html$1 lang='' @ [34] @ targetLocale params @ [34, 62]) html),
              sent))"

section \<open>Test fixtures\<close>

text \<open>
  The inputs of the examples below, after \<open>tests/mod.test.ts\<close>: the engine
  \<open>new LingoDotDevEngine({ apiKey: "test-key" })\<close>, the parameters
  \<open>{ sourceLocale: "en", targetLocale: "es" }\<close>, a \<open>fetch\<close> that answers every request with
  status 200 and a given JSON body, and one that answers with a bare status and text.
\<close>

definition test_engine :: EngineParams where
  "test_engine = \<lparr> apiKey = str ''test-key'', apiUrl = str ''https://engine.lingo.dev'',
                    batchSize = 25, idealBatchItemSize = 250 \<rparr>"

definition en_es :: LocalizationParams where
  "en_es = \<lparr> sourceLocale = Some (str ''en''), targetLocale = str ''es'', fast = None,
              reference = None, hints = None \<rparr>"

definition json_response :: "'b \<Rightarrow> 'b fetch_result" where
  "json_response body = Responded \<lparr> status = 200, statusText = [], bodyText = [], bodyJson = body \<rparr>"

definition status_response :: "nat \<Rightarrow> jsstring \<Rightarrow> jsstring \<Rightarrow> 'b \<Rightarrow> 'b fetch_result" where
  "status_response code reason body_text body =
     Responded \<lparr> status = code, statusText = reason, bodyText = body_text, bodyJson = body \<rparr>"

definition no_body :: i18n_body where
  "no_body = \<lparr> body_data = None, body_error = None \<rparr>"

text \<open>A service that answers every chunk key by key, in the order of the request.\<close>

definition translating_service :: "(jsstring \<Rightarrow> jsstring) \<Rightarrow> remote" where
  "translating_service translate i request =
     json_response \<lparr> body_data = Some (map (\<lambda>(k, v). (k, translate v)) (request_data request)),
                     body_error = None \<rparr>"

text \<open>A service that answers with the keys of the chunk in reverse order.\<close>

definition reversing_service :: "(jsstring \<Rightarrow> jsstring) \<Rightarrow> remote" where
  "reversing_service translate i request =
     json_response \<lparr> body_data = Some (rev (map (\<lambda>(k, v). (k, translate v)) (request_data request))),
                     body_error = None \<rparr>"

text \<open>A service that answers every request with the same data.\<close>

definition fixed_service :: "chunk \<Rightarrow> remote" where
  "fixed_service d i request = json_response \<lparr> body_data = Some d, body_error = None \<rparr>"

definition two_messages :: "chat_message list" where
  "two_messages = [\<lparr> chat_name = str ''Alice'', chat_text = str ''Hello'' \<rparr>,
                   \<lparr> chat_name = str ''Bob'', chat_text = str ''Bye'' \<rparr>]"

section \<open>Evaluation on concrete inputs\<close>

lemmas string_eval = str_def is_ws_def trim_def split_ws.simps Let_def

lemmas object_eval = set_property_def as_payload_def is_array_index_def is_digit_def
  decimal_value_def object_assign_def object_assign_all_def

lemmas chunker_eval = extractPayloadChunks_def number_or_def

lemmas client_eval = localizeChunk_def build_request_def ok_def truthy_object_def
  truthy_string_def nullish_or_def

lemmas orchestrator_eval = localizeRaw_def localizeObject_def localizeStringArray_def
  localizeChat_def keyed_record_def enumerate_eq_zip

lemmas chat_eval = parsed_index_def parseInt_def element_at_def chat_at_def is_radix_digit_def
  radix_digit_value_def undefined_name_error_def

lemma show_nat_small: "n < 10 \<Longrightarrow> show_nat n = [48 + n]"
  by (subst show_nat.simps) simp

lemma show_nat_large: "\<not> n < 10 \<Longrightarrow> show_nat n = show_nat (n div 10) @ [48 + n mod 10]"
  by (subst show_nat.simps) simp

lemmas show_nat_eval = show_nat_small show_nat_large

lemmas html_eval = localizeHtmlSimple_def extract_content_def replace_all_def replace_first_def
  first_captures_def block_matcher_def text_matcher_def attribute_matcher_def
  html_tag_matcher_def literal_matcher_def add_text_def add_attribute_def
  attributePatterns_def ascii_lower_def is_word_char_def object_prototype_keys_def
  not_a_function_error_def

lemmas fixture_eval = test_engine_def en_es_def json_response_def status_response_def no_body_def
  translating_service_def reversing_service_def fixed_service_def two_messages_def

section \<open>Word-Counter: the count is the sum over the leaf strings\<close>

lemma token_count_ws_Cons: "is_ws c \<Longrightarrow> token_count (c # s) = token_count s"
  by (cases s) auto

lemma token_count_dropWhile: "token_count (dropWhile is_ws s) = token_count s"
  by (induction s) (auto simp: token_count_ws_Cons)

lemma token_count_ws_snoc: "is_ws c \<Longrightarrow> token_count (s @ [c]) = token_count s"
  by (induction s rule: token_count.induct) auto

lemma token_count_drop_trailing: "token_count (rev (dropWhile is_ws (rev s))) = token_count s"
  by (induction s rule: rev_induct) (auto simp: token_count_ws_snoc)

lemma token_count_trim: "token_count (trim s) = token_count s"
  by (simp add: trim_def token_count_drop_trailing token_count_dropWhile)

text \<open>A non-empty run of non-white-space units in front of a separator is one more token.\<close>

lemma token_count_run:
  "p \<noteq> [] \<Longrightarrow> \<forall>c\<in>set p. \<not> is_ws c \<Longrightarrow> rest = [] \<or> is_ws (hd rest) \<Longrightarrow>
   token_count (p @ rest) = Suc (token_count rest)"
proof (induction p rule: token_count.induct)
  case 1
  then show ?case by simp
next
  case (2 c)
  then show ?case by (cases rest) (auto simp: token_count_ws_Cons)
next
  case (3 c d s)
  then show ?case by auto
qed

lemma split_ws_count: "length (filter (\<lambda>piece. piece \<noteq> []) (split_ws s)) = token_count s"
proof (induction s rule: split_ws.induct)
  case (1 s)
  define piece where "piece = takeWhile (\<lambda>c. \<not> is_ws c) s"
  define rest where "rest = dropWhile (\<lambda>c. \<not> is_ws c) s"
  have s: "s = piece @ rest" by (simp add: piece_def rest_def)
  have pc: "\<forall>c\<in>set piece. \<not> is_ws c"
    unfolding piece_def by (auto dest: set_takeWhileD)
  have hd: "rest = [] \<or> is_ws (hd rest)"
    unfolding rest_def using hd_dropWhile [of "\<lambda>c. \<not> is_ws c" s] by auto
  have tc: "token_count s = (if piece = [] then 0 else 1) + token_count rest"
    using token_count_run [OF _ pc hd] s by auto
  show ?case
  proof (cases "rest = []")
    case True
    then show ?thesis
      using tc by (subst split_ws.simps) (simp add: Let_def piece_def [symmetric] rest_def [symmetric])
  next
    case False
    have "length (filter (\<lambda>piece. piece \<noteq> []) (split_ws (dropWhile is_ws rest)))
          = token_count (dropWhile is_ws rest)"
      using "1.IH" [OF piece_def rest_def False] .
    then show ?thesis
      using tc False
      by (subst split_ws.simps)
         (simp add: Let_def piece_def [symmetric] rest_def [symmetric] token_count_dropWhile)
  qed
qed

lemma foldl_add_sum: "foldl (\<lambda>acc x. acc + f x) a xs = a + sum_list (map f xs)" for a :: nat
  by (induction xs arbitrary: a) auto

lemma sum_list_concat_map:
  "sum_list (map f (concat xss)) = sum_list (map (\<lambda>xs. sum_list (map f xs)) xss)"
  for f :: "'a \<Rightarrow> nat"
  by (induction xss) auto

text \<open>
  C6. \<open>countWordsInRecord\<close> is a total function on values, and its result is the sum, over
  the leaf strings reachable through nested arrays and objects, of the number of maximal
  white-space-delimited non-empty tokens of the string; every other leaf adds nothing.
\<close>

theorem countWordsInRecord_leaves:
  "countWordsInRecord v = sum_list (map token_count (leaf_strings v))"
proof (induction v)
  case (JArr items)
  then show ?case
    by (simp add: foldl_add_sum sum_list_concat_map comp_def cong: map_cong)
next
  case (JObj entries)
  have "\<And>e. e \<in> set entries \<Longrightarrow>
          countWordsInRecord (snd e) = sum_list (map token_count (leaf_strings (snd e)))"
    using JObj by (auto simp: snds.simps)
  then show ?case
    by (simp add: foldl_add_sum sum_list_concat_map comp_def cong: map_cong)
qed (simp_all add: split_ws_count token_count_trim)

theorem countWordsInRecord_leaves_witness:
  "countWordsInRecord
     (JArr [JStr (str '' a  b ''), JNum 3, JObj [(str ''k'', JStr (str ''x y'')), (str ''n'', JNull)]])
   = 4"
  using countWordsInRecord_leaves
    [of "JArr [JStr (str '' a  b ''), JNum 3, JObj [(str ''k'', JStr (str ''x y'')), (str ''n'', JNull)]]"]
  by (simp add: string_eval)

section \<open>Chunker: a payload that ends in a non-string entry\<close>

text \<open>
  C1. The Chunker is to put every string-valued entry of the payload into exactly one
  chunk. Here the payload \<open>{title: "Hello", count: 1}\<close> is chunked under the default
  thresholds: the chunk holding \<open>title\<close> is still open when the loop reaches the last entry,
  which is not a string, so the chunk is never pushed and the result is empty. (The
  section after this one shows the partition for payloads that end in a string.)
\<close>

theorem extractPayloadChunks_trailing_non_string:
  "extractPayloadChunks test_engine
     [(str ''title'', JStr (str ''Hello'')), (str ''count'', JNum 1)] = []"
  by (simp add: fixture_eval chunker_eval object_eval string_eval)

section \<open>Chunker: what holds of the chunks\<close>

lemma set_property_fresh:
  "ordinary_key key \<Longrightarrow> key \<notin> set (map fst obj) \<Longrightarrow> set_property obj key v = obj @ [(key, v)]"
  by (simp add: set_property_def ordinary_key_def)

lemma length_insert_indexed: "length (insert_indexed key v obj) = Suc (length obj)"
  by (induction obj) auto

lemma length_set_property: "length (set_property obj key v) \<le> Suc (length obj)"
  by (simp add: set_property_def length_insert_indexed)

text \<open>One turn of the loop, on a string and on anything else.\<close>

lemma extract_loop_string:
  "extract_loop cfg ((key, JStr s) # rest) currentChunk count result =
     (if int (countWordsInRecord (JObj (as_payload (set_property currentChunk key s))))
           > number_or (idealBatchItemSize cfg) 250 \<or>
         int (count + 1) \<ge> number_or (batchSize cfg) 25 \<or> rest = []
      then extract_loop cfg rest [] 0 (result @ [set_property currentChunk key s])
      else extract_loop cfg rest (set_property currentChunk key s) (count + 1) result)"
  by (simp add: Let_def)

lemma extract_loop_other:
  "\<not> is_string v \<Longrightarrow>
   extract_loop cfg ((key, v) # rest) currentChunk count result =
     extract_loop cfg rest currentChunk count result"
  by (cases v) (simp_all add: is_string_def)

lemma string_entries_other:
  "\<not> is_string v \<Longrightarrow> string_entries ((key, v) # rest) = string_entries rest"
  by (cases v) (simp_all add: is_string_def)

lemma is_string_cases:
  obtains s where "v = JStr s" | "\<not> is_string v"
  by (cases v) (simp_all add: is_string_def)

text \<open>
  No chunk holds more entries than the item threshold, whatever the payload; a threshold
  below 1 gives chunks of one entry.
\<close>

lemma extract_loop_bound:
  assumes "\<forall>c\<in>set result. int (length c) \<le> max 1 (number_or (batchSize cfg) 25)"
      and "length currentChunk \<le> count"
      and "count = 0 \<or> int count < number_or (batchSize cfg) 25"
  shows "\<forall>c\<in>set (extract_loop cfg payload currentChunk count result).
           int (length c) \<le> max 1 (number_or (batchSize cfg) 25)"
  using assms
proof (induction payload arbitrary: currentChunk count result)
  case Nil
  then show ?case by simp
next
  case (Cons entry rest)
  obtain key v where entry: "entry = (key, v)" by (cases entry)
  show ?case
  proof (cases v rule: is_string_cases)
    case (1 s)
    let ?chunk = "set_property currentChunk key s"
    define closes where
      "closes \<longleftrightarrow> int (countWordsInRecord (JObj (as_payload ?chunk)))
                     > number_or (idealBatchItemSize cfg) 250 \<or>
                   int (count + 1) \<ge> number_or (batchSize cfg) 25 \<or> rest = []"
    have step: "extract_loop cfg (entry # rest) currentChunk count result =
                  (if closes then extract_loop cfg rest [] 0 (result @ [?chunk])
                   else extract_loop cfg rest ?chunk (count + 1) result)"
      unfolding entry 1 closes_def by (rule extract_loop_string)
    have len: "length ?chunk \<le> Suc count"
      using length_set_property [of currentChunk key s] Cons.prems(2) by simp
    have small: "int (length ?chunk) \<le> max 1 (number_or (batchSize cfg) 25)"
      using len Cons.prems(3) by auto
    show ?thesis
    proof (cases closes)
      case True
      have "\<forall>c\<in>set (extract_loop cfg rest [] 0 (result @ [?chunk])).
              int (length c) \<le> max 1 (number_or (batchSize cfg) 25)"
        by (rule Cons.IH) (use Cons.prems(1) small in auto)
      then show ?thesis
        by (simp only: step True if_True)
    next
      case False
      then have "int (count + 1) < number_or (batchSize cfg) 25"
        by (auto simp: closes_def)
      then have "\<forall>c\<in>set (extract_loop cfg rest ?chunk (count + 1) result).
              int (length c) \<le> max 1 (number_or (batchSize cfg) 25)"
        by (intro Cons.IH) (use Cons.prems(1) len in auto)
      then show ?thesis
        by (simp only: step False if_False)
    qed
  next
    case 2
    then show ?thesis
      using Cons.IH [OF Cons.prems] by (simp only: entry extract_loop_other [OF 2])
  qed
qed

text \<open>
  The chunks, one after the other, are the string-valued entries up to the last chunk
  that was closed. Nothing is left over when the payload is empty or ends in a string.
\<close>

lemma extract_loop_partition:
  assumes "distinct (map fst currentChunk @ map fst payload)"
      and "\<forall>key\<in>set (map fst payload). ordinary_key key"
  shows "\<exists>dropped.
           concat result @ currentChunk @ string_entries payload =
             concat (extract_loop cfg payload currentChunk count result) @ dropped \<and>
           (((payload = [] \<and> currentChunk = []) \<or> (payload \<noteq> [] \<and> is_string (snd (last payload))))
              \<longrightarrow> dropped = [])"
  using assms
proof (induction payload arbitrary: currentChunk count result)
  case Nil
  then show ?case by simp
next
  case (Cons entry rest)
  obtain key v where entry: "entry = (key, v)" by (cases entry)
  have rest_keys: "\<forall>key\<in>set (map fst rest). ordinary_key key"
    using Cons.prems(2) by simp
  show ?case
  proof (cases v rule: is_string_cases)
    case (1 s)
    have fresh: "set_property currentChunk key s = currentChunk @ [(key, s)]"
      using Cons.prems by (intro set_property_fresh) (auto simp: entry)
    let ?chunk = "currentChunk @ [(key, s)]"
    define closes where
      "closes \<longleftrightarrow> int (countWordsInRecord (JObj (as_payload ?chunk)))
                     > number_or (idealBatchItemSize cfg) 250 \<or>
                   int (count + 1) \<ge> number_or (batchSize cfg) 25 \<or> rest = []"
    have step: "extract_loop cfg (entry # rest) currentChunk count result =
                  (if closes then extract_loop cfg rest [] 0 (result @ [?chunk])
                   else extract_loop cfg rest ?chunk (count + 1) result)"
      unfolding entry 1 closes_def fresh [symmetric] by (rule extract_loop_string)
    have entries: "string_entries (entry # rest) = (key, s) # string_entries rest"
      by (simp add: entry 1)
    have string_last: "is_string (snd (last (entry # rest))) \<or> rest \<noteq> []"
      by (simp add: entry 1 is_string_def)
    show ?thesis
    proof (cases closes)
      case True
      have "distinct (map fst ([] :: chunk) @ map fst rest)"
        using Cons.prems(1) by simp
      from Cons.IH [OF this rest_keys, of "result @ [?chunk]" 0]
      obtain dropped where d:
        "concat (result @ [?chunk]) @ [] @ string_entries rest =
           concat (extract_loop cfg rest [] 0 (result @ [?chunk])) @ dropped"
        "((rest = [] \<and> ([] :: chunk) = []) \<or> (rest \<noteq> [] \<and> is_string (snd (last rest))))
           \<longrightarrow> dropped = []"
        by blast
      have "concat result @ currentChunk @ string_entries (entry # rest) =
              concat (extract_loop cfg (entry # rest) currentChunk count result) @ dropped"
        using d(1) by (simp add: step True entries)
      moreover have "is_string (snd (last (entry # rest))) \<longrightarrow> dropped = []"
        using d(2) by (cases "rest = []") auto
      ultimately show ?thesis by blast
    next
      case False
      then have rest: "rest \<noteq> []" by (simp add: closes_def)
      have "distinct (map fst ?chunk @ map fst rest)"
        using Cons.prems(1) by (auto simp: entry)
      from Cons.IH [OF this rest_keys, of result "count + 1"]
      obtain dropped where d:
        "concat result @ ?chunk @ string_entries rest =
           concat (extract_loop cfg rest ?chunk (count + 1) result) @ dropped"
        "((rest = [] \<and> ?chunk = []) \<or> (rest \<noteq> [] \<and> is_string (snd (last rest))))
           \<longrightarrow> dropped = []"
        by blast
      have "concat result @ currentChunk @ string_entries (entry # rest) =
              concat (extract_loop cfg (entry # rest) currentChunk count result) @ dropped"
        using d(1) by (simp add: step False entries)
      moreover have "is_string (snd (last (entry # rest))) \<longrightarrow> dropped = []"
        using d(2) rest by auto
      ultimately show ?thesis by blast
    qed
  next
    case 2
    have step: "extract_loop cfg (entry # rest) currentChunk count result =
                extract_loop cfg rest currentChunk count result"
      by (simp only: entry extract_loop_other [OF 2])
    have entries: "string_entries (entry # rest) = string_entries rest"
      by (simp only: entry string_entries_other [OF 2])
    have "distinct (map fst currentChunk @ map fst rest)"
      using Cons.prems(1) by (auto simp: entry)
    from Cons.IH [OF this rest_keys, of result count]
    obtain dropped where d:
      "concat result @ currentChunk @ string_entries rest =
         concat (extract_loop cfg rest currentChunk count result) @ dropped"
      "((rest = [] \<and> currentChunk = []) \<or> (rest \<noteq> [] \<and> is_string (snd (last rest))))
         \<longrightarrow> dropped = []"
      by blast
    have "concat result @ currentChunk @ string_entries (entry # rest) =
            concat (extract_loop cfg (entry # rest) currentChunk count result) @ dropped"
      using d(1) by (simp only: step entries)
    moreover have "is_string (snd (last (entry # rest))) \<longrightarrow> dropped = []"
      using d(2) 2 by (cases "rest = []") (auto simp: entry)
    ultimately show ?thesis by blast
  qed
qed

text \<open>
  For a payload with distinct ordinary keys that is empty or ends in a string-valued
  entry, the chunks in order are exactly the string-valued entries, each once and in
  their order, and every chunk holds at most the item threshold (at least 1) of them.
\<close>

lemma extractPayloadChunks_partition:
  assumes "distinct (map fst payload)"
      and "\<forall>key\<in>set (map fst payload). ordinary_key key"
      and "payload = [] \<or> is_string (snd (last payload))"
  shows "concat (extractPayloadChunks cfg payload) = string_entries payload"
    and "\<forall>c\<in>set (extractPayloadChunks cfg payload).
           int (length c) \<le> max 1 (number_or (batchSize cfg) 25)"
proof -
  from extract_loop_partition [of "[]" payload "[]" cfg 0] assms
  show "concat (extractPayloadChunks cfg payload) = string_entries payload"
    by (auto simp: extractPayloadChunks_def)
  show "\<forall>c\<in>set (extractPayloadChunks cfg payload).
          int (length c) \<le> max 1 (number_or (batchSize cfg) 25)"
    unfolding extractPayloadChunks_def by (rule extract_loop_bound) simp_all
qed

section \<open>Object localization returns the merged responses only\<close>

text \<open>
  C2. \<open>localizeObject\<close> is to return the input mapping with the translations substituted.
  Here the object \<open>{count: 5, greeting: "Hello"}\<close> is localized against a service that
  answers every chunk key by key: the result holds \<open>greeting\<close> alone, the entry \<open>count\<close> of
  the input is gone.
\<close>

theorem localizeObject_loses_non_string_entries:
  "fst (localizeObject test_engine (translating_service (\<lambda>v. str ''Hola'')) (str ''workflow'')
          [(str ''count'', JNum 5), (str ''greeting'', JStr (str ''Hello''))] en_es)
   = Inr [(str ''greeting'', str ''Hola'')]"
  by (simp add: fixture_eval orchestrator_eval client_eval chunker_eval object_eval string_eval)

section \<open>Engine construction\<close>

text \<open>
  C7, as the code has it. An engine is constructed exactly when \<open>apiKey\<close> is given and not
  empty; otherwise construction throws \<open>apiKey is required\<close>. The stored configuration keeps
  the key, takes \<open>apiUrl\<close>, \<open>batchSize\<close> and \<open>idealBatchItemSize\<close> from the caller when given and
  defaults them to the production endpoint, 25 and 250 when omitted. The numbers are stored
  as given, without a range check: they are at least 1 when the caller's values, where
  given, are.
\<close>

theorem engine_construction:
  "((\<exists>cfg. new_LingoDotDevEngine config = Inr cfg) \<longleftrightarrow>
      (\<exists>key. given_apiKey config = Some key \<and> key \<noteq> [])) \<and>
   ((\<forall>cfg. new_LingoDotDevEngine config \<noteq> Inr cfg) \<longrightarrow>
      new_LingoDotDevEngine config = Inl (Error (str ''apiKey is required''))) \<and>
   (\<forall>cfg. new_LingoDotDevEngine config = Inr cfg \<longrightarrow>
      given_apiKey config = Some (apiKey cfg) \<and>
      apiUrl cfg = (case given_apiUrl config of
                      None \<Rightarrow> str ''https://engine.lingo.dev'' | Some url \<Rightarrow> url) \<and>
      batchSize cfg = (case given_batchSize config of None \<Rightarrow> 25 | Some n \<Rightarrow> n) \<and>
      idealBatchItemSize cfg =
        (case given_idealBatchItemSize config of None \<Rightarrow> 250 | Some n \<Rightarrow> n) \<and>
      ((\<forall>n. given_batchSize config = Some n \<longrightarrow> 1 \<le> n) \<longrightarrow> 1 \<le> batchSize cfg) \<and>
      ((\<forall>n. given_idealBatchItemSize config = Some n \<longrightarrow> 1 \<le> n) \<longrightarrow>
         1 \<le> idealBatchItemSize cfg))"
  by (auto simp: new_LingoDotDevEngine_def validateEngineParams_def nullish_or_def
           split: option.splits)

theorem engine_construction_witness:
  "given_apiKey \<lparr> given_apiKey = Some (str ''key''), given_apiUrl = None,
                  given_batchSize = Some 10, given_idealBatchItemSize = None \<rparr>
     = Some (str ''key'') \<and>
   str ''key'' \<noteq> [] \<and>
   new_LingoDotDevEngine \<lparr> given_apiKey = Some (str ''key''), given_apiUrl = None,
                           given_batchSize = Some 10, given_idealBatchItemSize = None \<rparr>
     = Inr \<lparr> apiKey = str ''key'', apiUrl = str ''https://engine.lingo.dev'', batchSize = 10,
             idealBatchItemSize = 250 \<rparr>"
  using engine_construction
    [of "\<lparr> given_apiKey = Some (str ''key''), given_apiUrl = None,
           given_batchSize = Some 10, given_idealBatchItemSize = None \<rparr>"]
  by (simp add: new_LingoDotDevEngine_def validateEngineParams_def nullish_or_def str_def)

text \<open>
  C7 as stated fails: a caller's \<open>batchSize\<close> of \<open>-1\<close> and \<open>idealBatchItemSize\<close> of 0 are
  accepted and stored, so the configuration of a constructed engine need not have them at
  least 1.
\<close>

theorem engine_construction_counterexample:
  "new_LingoDotDevEngine \<lparr> given_apiKey = Some (str ''key''), given_apiUrl = None,
                           given_batchSize = Some (- 1), given_idealBatchItemSize = Some 0 \<rparr>
     = Inr \<lparr> apiKey = str ''key'', apiUrl = str ''https://engine.lingo.dev'', batchSize = - 1,
             idealBatchItemSize = 0 \<rparr> \<and>
   \<not> (1 \<le> batchSize \<lparr> apiKey = str ''key'', apiUrl = str ''https://engine.lingo.dev'',
                        batchSize = - 1, idealBatchItemSize = 0 \<rparr>) \<and>
   \<not> (1 \<le> idealBatchItemSize \<lparr> apiKey = str ''key'', apiUrl = str ''https://engine.lingo.dev'',
                                 batchSize = - 1, idealBatchItemSize = 0 \<rparr>)"
  by (simp add: new_LingoDotDevEngine_def validateEngineParams_def nullish_or_def str_def)

section \<open>The empty string array\<close>

text \<open>
  C8. The Chunker gives no chunk for the empty mapping, and \<open>localizeStringArray\<close> on the
  empty array sends no request; with a target locale it returns the empty array.
\<close>

theorem localizeStringArray_empty:
  "extractPayloadChunks cfg [] = [] \<and>
   snd (localizeStringArray cfg remote workflowId [] params) = [] \<and>
   (targetLocale params \<noteq> [] \<longrightarrow>
      fst (localizeStringArray cfg remote workflowId [] params) = Inr [])"
  by (simp add: orchestrator_eval chunker_eval as_payload_def object_assign_all_def)

theorem localizeStringArray_empty_witness:
  "targetLocale en_es \<noteq> [] \<and>
   localizeStringArray test_engine (\<lambda>i request. Rejected (Error (str ''offline'')))
     (str ''workflow'') [] en_es
   = (Inr [], [])"
  using localizeStringArray_empty
    [of test_engine "\<lambda>i request. Rejected (Error (str ''offline''))" "str ''workflow''" en_es]
  by (simp add: en_es_def str_def prod_eq_iff)

section \<open>Chunk Translator Client: what a response becomes\<close>

text \<open>
  C5, as the code has it. When the request of a chunk completes with status \<open>s\<close>: for
  \<open>500 \<le> s \<le> 599\<close> the call fails with the server error whose message carries the status
  code, the status text and the body text; for \<open>s = 400\<close> it fails with the invalid-request
  error carrying the status text; for any other status outside 200..299 it fails with the
  body text as message; and for a status in 200..299 with no \<open>data\<close> in the body and a
  non-empty \<open>error\<close> it fails with that message, while an empty \<open>error\<close> gives the empty
  mapping.
\<close>

theorem localizeChunk_responses:
  assumes "fetch (build_request cfg source target payload_data payload_reference payload_hints
                    workflowId fastMode) = Responded res"
  shows
   "(500 \<le> status res \<and> status res \<le> 599 \<longrightarrow>
       localizeChunk cfg fetch source target payload_data payload_reference payload_hints
         workflowId fastMode =
       Inl (Error (str ''Server error ('' @ show_nat (status res) @ str ''): '' @
                   statusText res @ str ''. '' @ bodyText res @
                   str ''. This may be due to temporary service issues.''))) \<and>
    (status res = 400 \<longrightarrow>
       localizeChunk cfg fetch source target payload_data payload_reference payload_hints
         workflowId fastMode =
       Inl (Error (str ''Invalid request: '' @ statusText res))) \<and>
    (\<not> (200 \<le> status res \<and> status res \<le> 299) \<and> \<not> (500 \<le> status res \<and> status res \<le> 599) \<and>
     status res \<noteq> 400 \<longrightarrow>
       localizeChunk cfg fetch source target payload_data payload_reference payload_hints
         workflowId fastMode =
       Inl (Error (bodyText res))) \<and>
    (200 \<le> status res \<and> status res \<le> 299 \<and> body_data (bodyJson res) = None \<longrightarrow>
       (\<forall>e. body_error (bodyJson res) = Some e \<and> e \<noteq> [] \<longrightarrow>
          localizeChunk cfg fetch source target payload_data payload_reference payload_hints
            workflowId fastMode = Inl (Error e)) \<and>
       (body_error (bodyJson res) = Some [] \<longrightarrow>
          localizeChunk cfg fetch source target payload_data payload_reference payload_hints
            workflowId fastMode = Inr []))"
  using assms
  by (simp add: localizeChunk_def ok_def truthy_object_def truthy_string_def nullish_or_def)

theorem localizeChunk_responses_witness:
  "localizeChunk test_engine
     (\<lambda>request. status_response 500 (str ''Internal Server Error'') (str ''down'') no_body)
     (Some (str ''en'')) (str ''es'') [(str ''text'', str ''Hello'')] None None (str ''workflow'') False
   = Inl (Error (str ''Server error (500): Internal Server Error. down. This may be due to temporary service issues.'')) \<and>
   localizeChunk test_engine
     (\<lambda>request. status_response 400 (str ''Bad Request'') (str ''no'') no_body)
     (Some (str ''en'')) (str ''es'') [(str ''text'', str ''Hello'')] None None (str ''workflow'') False
   = Inl (Error (str ''Invalid request: Bad Request'')) \<and>
   localizeChunk test_engine
     (\<lambda>request. status_response 404 (str ''Not Found'') (str ''nothing here'') no_body)
     (Some (str ''en'')) (str ''es'') [(str ''text'', str ''Hello'')] None None (str ''workflow'') False
   = Inl (Error (str ''nothing here'')) \<and>
   localizeChunk test_engine
     (\<lambda>request. json_response \<lparr> body_data = None, body_error = Some (str ''quota exceeded'') \<rparr>)
     (Some (str ''en'')) (str ''es'') [(str ''text'', str ''Hello'')] None None (str ''workflow'') False
   = Inl (Error (str ''quota exceeded''))"
  using
    localizeChunk_responses
      [of "\<lambda>request. status_response 500 (str ''Internal Server Error'') (str ''down'') no_body"
          test_engine "Some (str ''en'')" "str ''es''" "[(str ''text'', str ''Hello'')]" None None
          "str ''workflow''" False
          "\<lparr> status = 500, statusText = str ''Internal Server Error'', bodyText = str ''down'',
             bodyJson = no_body \<rparr>"]
    localizeChunk_responses
      [of "\<lambda>request. status_response 400 (str ''Bad Request'') (str ''no'') no_body"
          test_engine "Some (str ''en'')" "str ''es''" "[(str ''text'', str ''Hello'')]" None None
          "str ''workflow''" False
          "\<lparr> status = 400, statusText = str ''Bad Request'', bodyText = str ''no'',
             bodyJson = no_body \<rparr>"]
    localizeChunk_responses
      [of "\<lambda>request. status_response 404 (str ''Not Found'') (str ''nothing here'') no_body"
          test_engine "Some (str ''en'')" "str ''es''" "[(str ''text'', str ''Hello'')]" None None
          "str ''workflow''" False
          "\<lparr> status = 404, statusText = str ''Not Found'', bodyText = str ''nothing here'',
             bodyJson = no_body \<rparr>"]
    localizeChunk_responses
      [of "\<lambda>request. json_response \<lparr> body_data = None, body_error = Some (str ''quota exceeded'') \<rparr>"
          test_engine "Some (str ''en'')" "str ''es''" "[(str ''text'', str ''Hello'')]" None None
          "str ''workflow''" False
          "\<lparr> status = 200, statusText = [], bodyText = [],
             bodyJson = \<lparr> body_data = None, body_error = Some (str ''quota exceeded'') \<rparr> \<rparr>"]
  by (simp add: status_response_def json_response_def str_def show_nat_eval)

text \<open>
  C5 as stated fails: the body \<open>{"error": ""}\<close> under status 200 has no \<open>data\<close> and has an
  \<open>error\<close> field, yet the call does not fail; it returns the empty mapping.
\<close>

theorem localizeChunk_empty_error_counterexample:
  "localizeChunk test_engine
     (\<lambda>request. json_response \<lparr> body_data = None, body_error = Some [] \<rparr>)
     (Some (str ''en'')) (str ''es'') [(str ''text'', str ''Hello'')] None None (str ''workflow'') False
   = Inr []"
  by (simp add: json_response_def client_eval)

section \<open>Identity lookup\<close>

lemma string_includes_prefix: "string_includes (needle @ rest) needle"
proof (cases "needle @ rest")
  case Nil
  then show ?thesis by simp
next
  case (Cons c s)
  have "take (length needle) (needle @ rest) = needle" by simp
  then have "take (length needle) (c # s) = needle"
    by (simp only: Cons)
  then show ?thesis
    by (simp only: Cons string_includes.simps simp_thms)
qed

lemma server_error_included:
  "string_includes (str ''Server error ('' @ rest) (str ''Server error'')"
proof -
  have "str ''Server error ('' @ rest = str ''Server error'' @ (str '' ('' @ rest)"
    by (simp add: str_def)
  then show ?thesis
    by (simp only: string_includes_prefix)
qed

text \<open>
  C9, as the code has it. \<open>whoami\<close> returns \<open>{email, id}\<close> exactly when the endpoint answers
  with a status in 200..299 and a body whose \<open>email\<close> is present and not empty. It returns
  \<open>null\<close> when such a body is \<open>null\<close>, has no \<open>email\<close> or has the empty \<open>email\<close>, and when the
  status is outside 200..299 and outside 500..599. A status in 500..599 makes the call fail
  with the server error.
\<close>

theorem whoami_outcomes:
  "(whoami cfg fetch = Inr (Some user) \<longleftrightarrow>
      (\<exists>res payload e.
         fetch \<lparr> whoami_url = apiUrl cfg @ str ''/whoami'',
                 whoami_authorization = str ''Bearer '' @ apiKey cfg \<rparr> = Responded res \<and>
         200 \<le> status res \<and> status res \<le> 299 \<and> bodyJson res = Some payload \<and>
         payload_email payload = Some e \<and> e \<noteq> [] \<and>
         user = \<lparr> user_email = e, user_id = payload_id payload \<rparr>)) \<and>
   (\<forall>res. fetch \<lparr> whoami_url = apiUrl cfg @ str ''/whoami'',
                   whoami_authorization = str ''Bearer '' @ apiKey cfg \<rparr> = Responded res \<longrightarrow>
      (200 \<le> status res \<and> status res \<le> 299 \<and>
         (bodyJson res = None \<or>
          (\<exists>payload. bodyJson res = Some payload \<and>
             (payload_email payload = None \<or> payload_email payload = Some []))) \<longrightarrow>
         whoami cfg fetch = Inr None) \<and>
      (\<not> (200 \<le> status res \<and> status res \<le> 299) \<and> \<not> (500 \<le> status res \<and> status res \<le> 599) \<longrightarrow>
         whoami cfg fetch = Inr None) \<and>
      (500 \<le> status res \<and> status res \<le> 599 \<longrightarrow>
         whoami cfg fetch =
           Inl (Error (str ''Server error ('' @ show_nat (status res) @ str ''): '' @
                       statusText res @ str ''. This may be due to temporary service issues.''))))"
proof -
  let ?req = "\<lparr> whoami_url = apiUrl cfg @ str ''/whoami'',
                 whoami_authorization = str ''Bearer '' @ apiKey cfg \<rparr>"
  show ?thesis
  proof (cases "fetch ?req")
    case (Rejected err)
    then show ?thesis
      by (simp add: whoami_def whoami_try_def)
  next
    case (Responded res)
    then show ?thesis
      by (cases "bodyJson res")
         (auto simp: whoami_def whoami_try_def ok_def truthy_string_def nullish_or_def
               server_error_included split: option.splits)
  qed
qed

theorem whoami_outcomes_witness:
  "whoami test_engine
     (\<lambda>request. json_response (Some \<lparr> payload_email = Some (str ''test@example.com''),
                                        payload_id = Some (str ''user123'') \<rparr>))
   = Inr (Some \<lparr> user_email = str ''test@example.com'', user_id = Some (str ''user123'') \<rparr>) \<and>
   whoami test_engine (\<lambda>request. json_response (Some \<lparr> payload_email = None, payload_id = None \<rparr>))
   = Inr None \<and>
   whoami test_engine (\<lambda>request. status_response 401 (str ''Unauthorized'') [] None)
   = Inr None \<and>
   whoami test_engine (\<lambda>request. status_response 503 (str ''Service Unavailable'') [] None)
   = Inl (Error (str ''Server error (503): Service Unavailable. This may be due to temporary service issues.''))"
  using
    whoami_outcomes
      [of test_engine
          "\<lambda>request. json_response (Some \<lparr> payload_email = Some (str ''test@example.com''),
                                             payload_id = Some (str ''user123'') \<rparr>)"
          "\<lparr> user_email = str ''test@example.com'', user_id = Some (str ''user123'') \<rparr>"]
    whoami_outcomes
      [of test_engine
          "\<lambda>request. json_response (Some \<lparr> payload_email = None, payload_id = None \<rparr>)"]
    whoami_outcomes
      [of test_engine "\<lambda>request. status_response 401 (str ''Unauthorized'') [] None"]
    whoami_outcomes
      [of test_engine "\<lambda>request. status_response 503 (str ''Service Unavailable'') [] None"]
  by (simp add: status_response_def json_response_def str_def show_nat_eval)

text \<open>
  C9 as stated fails: the body \<open>{"email": "", "id": "user123"}\<close> under status 200 carries an
  \<open>email\<close> field, yet \<open>whoami\<close> returns \<open>null\<close>.
\<close>

theorem whoami_empty_email_counterexample:
  "whoami test_engine
     (\<lambda>request. json_response (Some \<lparr> payload_email = Some [],
                                        payload_id = Some (str ''user123'') \<rparr>))
   = Inr None"
  by (simp add: whoami_def whoami_try_def json_response_def ok_def truthy_string_def)

section \<open>Chat: rebuilding the sequence from the merged response\<close>

subsection \<open>The index parsed from a synthesized key\<close>

lemma is_digit_not_ws: "is_digit c \<Longrightarrow> \<not> is_ws c"
  by (auto simp: is_digit_def is_ws_def)

lemma show_nat_digits: "list_all is_digit (show_nat n)"
proof (induction n rule: show_nat.induct)
  case (1 n)
  have "n mod 10 \<le> 9" by simp
  then have "is_digit (48 + n mod 10)" "n < 10 \<Longrightarrow> is_digit (48 + n)"
    by (simp_all add: is_digit_def)
  then show ?case
    using 1 by (subst show_nat.simps) simp
qed

lemma show_nat_not_Nil: "show_nat n \<noteq> []"
  by (subst show_nat.simps) simp

lemma show_nat_value:
  "foldl (\<lambda>m c. 10 * m + radix_digit_value c) 0 (show_nat n) = n"
proof (induction n rule: show_nat.induct)
  case (1 n)
  show ?case
  proof (cases "n < 10")
    case True
    then show ?thesis
      by (subst show_nat.simps) (simp add: radix_digit_value_def is_digit_def)
  next
    case False
    then show ?thesis
      using 1 by (subst show_nat.simps) (simp add: radix_digit_value_def is_digit_def)
  qed
qed

text \<open>\<open>parseInt\<close> reads a decimal rendering back: no white space, sign or hex prefix is seen.\<close>

lemma parseInt_show_nat: "parseInt (Some (show_nat n)) = Some (int n)"
proof -
  obtain d ds where s: "show_nat n = d # ds"
    using show_nat_not_Nil [of n] by (cases "show_nat n") auto
  have all: "list_all is_digit (d # ds)"
    using show_nat_digits [of n] s by simp
  then have d: "is_digit d" by simp
  have nows: "dropWhile is_ws (d # ds) = d # ds"
    using d by (simp add: is_digit_not_ws)
  have sign: "d \<noteq> 45" "d \<noteq> 43"
    using d by (auto simp: is_digit_def)
  have nohex: "\<not> (length (d # ds) \<ge> 2 \<and> hd (d # ds) = 48 \<and>
                  (hd (tl (d # ds)) = 120 \<or> hd (tl (d # ds)) = 88))"
    using all by (cases ds) (auto simp: is_digit_def)
  have tw: "takeWhile (is_radix_digit 10) (d # ds) = d # ds"
    using all
    by (auto simp: is_radix_digit_def list_all_iff intro!: takeWhile_eq_all_conv [THEN iffD2])
  show ?thesis
    using show_nat_value [of n] nohex
    unfolding parseInt_def s
    by (simp only: option.case Let_def nows sign tw list.sel if_False if_True simp_thms list.simps)
qed

lemma split_on_no_sep: "sep \<notin> set s \<Longrightarrow> split_on sep s = [s]"
  by (induction s) auto

lemma split_on_append: "sep \<notin> set a \<Longrightarrow> split_on sep (a @ sep # b) = a # split_on sep b"
  by (induction a) auto

lemma show_nat_no_underscore: "95 \<notin> set (show_nat n)"
  using show_nat_digits [of n] by (auto simp: list_all_iff is_digit_def)

lemma parsed_index_chat_key: "parsed_index (str ''chat_'' @ show_nat i) = Some (int i)"
proof -
  have "str ''chat_'' @ show_nat i = str ''chat'' @ 95 # show_nat i"
    by (simp add: str_def)
  moreover have "95 \<notin> set (str ''chat'')"
    by (simp add: str_def)
  ultimately have "split_on 95 (str ''chat_'' @ show_nat i) = [str ''chat'', show_nat i]"
    by (simp add: split_on_append split_on_no_sep show_nat_no_underscore)
  then show ?thesis
    by (simp add: parsed_index_def element_at_def parseInt_show_nat)
qed

subsection \<open>Reading the array at the parsed index\<close>

lemma chat_at_Some_iff:
  "chat_at chat n = Some m \<longleftrightarrow> (\<exists>i<length chat. n = Some (int i) \<and> m = chat ! i)"
proof (cases n)
  case None
  then show ?thesis by (simp add: chat_at_def)
next
  case (Some a)
  show ?thesis
  proof
    assume "chat_at chat n = Some m"
    then have a: "0 \<le> a" "a < int (length chat)" "m = chat ! nat a"
      using Some by (auto simp: chat_at_def split: if_splits)
    then have "nat a < length chat \<and> n = Some (int (nat a)) \<and> m = chat ! nat a"
      using Some by simp
    then show "\<exists>i<length chat. n = Some (int i) \<and> m = chat ! i"
      by blast
  next
    assume "\<exists>i<length chat. n = Some (int i) \<and> m = chat ! i"
    then show "chat_at chat n = Some m"
      by (auto simp: chat_at_def)
  qed
qed

lemma chat_at_None_iff:
  "chat_at chat n = None \<longleftrightarrow> \<not> (\<exists>i<length chat. n = Some (int i))"
  using chat_at_Some_iff [of chat n] by (cases "chat_at chat n") auto

lemma rebuild_chat_fail:
  "\<exists>key\<in>set (map fst l). chat_at chat (parsed_index key) = None \<Longrightarrow>
   rebuild_chat chat l = Inl undefined_name_error"
proof (induction l)
  case Nil
  then show ?case by simp
next
  case (Cons e l)
  obtain key v where e: "e = (key, v)" by (cases e)
  show ?case
  proof (cases "chat_at chat (parsed_index key)")
    case None
    then show ?thesis by (simp add: e)
  next
    case (Some m)
    then have "\<exists>key\<in>set (map fst l). chat_at chat (parsed_index key) = None"
      using Cons.prems e by auto
    then show ?thesis
      using Cons.IH Some by (simp add: e)
  qed
qed

lemma rebuild_chat_ok:
  "\<forall>key\<in>set (map fst l). chat_at chat (parsed_index key) \<noteq> None \<Longrightarrow>
   rebuild_chat chat l =
     Inr (map (\<lambda>(key, v). \<lparr> chat_name = chat_name (the (chat_at chat (parsed_index key))),
                             chat_text = v \<rparr>) l)"
  by (induction l) (auto split: option.splits)

lemma takeWhile_append_stop:
  "\<forall>x\<in>set xs. P x \<Longrightarrow> ys = [] \<or> \<not> P (hd ys) \<Longrightarrow> takeWhile P (xs @ ys) = xs"
  by (cases ys) (auto simp: takeWhile_append)

lemma show_nat_zero_iff: "show_nat n = [48] \<longleftrightarrow> n = 0"
proof
  assume "show_nat n = [48]"
  then have "show_nat n = show_nat 0"
    by (simp add: show_nat_small)
  then show "n = 0"
    by (metis show_nat_value)
next
  assume "n = 0"
  then show "show_nat n = [48]"
    by (simp add: show_nat_small)
qed

text \<open>
  \<open>parseInt\<close> on a decimal rendering followed by anything that does not continue the
  number: the rest is ignored. A lone \<open>0\<close> followed by \<open>x\<close> or \<open>X\<close> would start a
  hexadecimal number instead.
\<close>

lemma parseInt_show_nat_append:
  assumes "r = [] \<or> \<not> is_digit (hd r)"
      and "\<not> (n = 0 \<and> r \<noteq> [] \<and> (hd r = 120 \<or> hd r = 88))"
  shows "parseInt (Some (show_nat n @ r)) = Some (int n)"
proof -
  obtain d ds where s: "show_nat n = d # ds"
    using show_nat_not_Nil [of n] by (cases "show_nat n") auto
  have all: "list_all is_digit (d # ds)"
    using show_nat_digits [of n] s by simp
  then have d: "is_digit d" by simp
  have nows: "dropWhile is_ws (d # ds @ r) = d # ds @ r"
    using d by (simp add: is_digit_not_ws)
  have sign: "d \<noteq> 45" "d \<noteq> 43"
    using d by (auto simp: is_digit_def)
  have nohex: "\<not> (length (d # ds @ r) \<ge> 2 \<and> hd (d # ds @ r) = 48 \<and>
                  (hd (tl (d # ds @ r)) = 120 \<or> hd (tl (d # ds @ r)) = 88))"
  proof (cases ds)
    case Nil
    then have "d = 48 \<Longrightarrow> n = 0"
      using s show_nat_zero_iff [of n] by simp
    then show ?thesis
      using assms(2) Nil by (cases r) auto
  next
    case (Cons e es)
    then have "is_digit e" using all by simp
    then show ?thesis
      using Cons by (auto simp: is_digit_def)
  qed
  have "takeWhile (is_radix_digit 10) ((d # ds) @ r) = d # ds"
    using all assms(1)
    by (intro takeWhile_append_stop) (auto simp: is_radix_digit_def list_all_iff)
  then have tw: "takeWhile (is_radix_digit 10) (d # ds @ r) = d # ds"
    by simp
  have val: "foldl (\<lambda>m c. 10 * m + radix_digit_value c) 0 (d # ds) = n"
    using show_nat_value [of n] by (simp only: s)
  show ?thesis
    using val nohex
    unfolding parseInt_def s append_Cons
    by (simp only: option.case Let_def nows sign tw list.sel if_False if_True simp_thms list.simps)
qed

text \<open>\<open>parseInt\<close> on a text that starts with no white space, sign or digit is \<open>NaN\<close>.\<close>

lemma parseInt_no_number:
  assumes "s = [] \<or> (\<not> is_ws (hd s) \<and> \<not> is_digit (hd s) \<and> hd s \<noteq> 43 \<and> hd s \<noteq> 45)"
  shows "parseInt (Some s) = None"
proof (cases s)
  case Nil
  then show ?thesis
    by (simp add: parseInt_def)
next
  case (Cons c r)
  then have c: "\<not> is_ws c" "\<not> is_digit c" "c \<noteq> 43" "c \<noteq> 45"
    using assms by simp_all
  then have "c \<noteq> 48"
    by (auto simp: is_digit_def)
  then show ?thesis
    using c by (simp add: parseInt_def Cons is_radix_digit_def Let_def)
qed

text \<open>The second piece of a key: what follows the first underscore, up to the next one.\<close>

lemma split_on_second:
  "sep \<notin> set a \<Longrightarrow> element_at (split_on sep (a @ sep # b)) 1 = Some (takeWhile (\<lambda>c. c \<noteq> sep) b)"
proof -
  assume a: "sep \<notin> set a"
  have "\<exists>ps. split_on sep b = takeWhile (\<lambda>c. c \<noteq> sep) b # ps"
    by (induction b) (auto split: list.splits)
  then show ?thesis
    using a by (auto simp: split_on_append element_at_def)
qed

lemma parsed_index_integer:
  assumes "95 \<notin> set a"
      and "r = [] \<or> \<not> is_digit (hd r)"
      and "\<not> (n = 0 \<and> r \<noteq> [] \<and> (hd r = 120 \<or> hd r = 88))"
  shows "parsed_index (a @ 95 # show_nat n @ r) = Some (int n)"
proof -
  let ?r = "takeWhile (\<lambda>c. c \<noteq> 95) r"
  have piece: "takeWhile (\<lambda>c. c \<noteq> 95) (show_nat n @ r) = show_nat n @ ?r"
    using show_nat_no_underscore [of n] by (simp add: takeWhile_append)
  have r1: "?r = [] \<or> \<not> is_digit (hd ?r)"
    using assms(2) by (cases r) auto
  have r2: "\<not> (n = 0 \<and> ?r \<noteq> [] \<and> (hd ?r = 120 \<or> hd ?r = 88))"
    using assms(3) by (cases r) (auto split: if_splits)
  show ?thesis
    unfolding parsed_index_def split_on_second [OF assms(1)] piece
    using r1 r2 by (rule parseInt_show_nat_append)
qed

lemma parsed_index_no_underscore: "95 \<notin> set key \<Longrightarrow> parsed_index key = None"
  by (simp add: parsed_index_def split_on_no_sep element_at_def parseInt_def)

lemma parsed_index_no_number:
  assumes "95 \<notin> set a"
      and "b = [] \<or> (\<not> is_ws (hd b) \<and> \<not> is_digit (hd b) \<and> hd b \<noteq> 43 \<and> hd b \<noteq> 45)"
  shows "parsed_index (a @ 95 # b) = None"
proof -
  let ?b = "takeWhile (\<lambda>c. c \<noteq> 95) b"
  have "?b = [] \<or> (\<not> is_ws (hd ?b) \<and> \<not> is_digit (hd ?b) \<and> hd ?b \<noteq> 43 \<and> hd ?b \<noteq> 45)"
    using assms(2) by (cases b) auto
  then show ?thesis
    unfolding parsed_index_def split_on_second [OF assms(1)]
    by (rule parseInt_no_number)
qed

lemma rebuild_chat_valid:
  assumes "\<forall>key\<in>set (map fst l). \<exists>i<length chat. parsed_index key = Some (int i)"
  shows "rebuild_chat chat l =
           Inr (map (\<lambda>(key, v). \<lparr> chat_name = chat_name (chat ! nat (the (parsed_index key))),
                                   chat_text = v \<rparr>) l)"
proof -
  have elem: "the (chat_at chat (parsed_index key)) = chat ! nat (the (parsed_index key))"
    if member: "key \<in> set (map fst l)" for key
  proof -
    obtain i where "i < length chat" "parsed_index key = Some (int i)"
      using assms member by blast
    then show ?thesis
      by (simp add: chat_at_def)
  qed
  have valid: "\<forall>key\<in>set (map fst l). chat_at chat (parsed_index key) \<noteq> None"
    using assms by (simp add: chat_at_None_iff)
  have "map (\<lambda>(key, v). \<lparr> chat_name = chat_name (the (chat_at chat (parsed_index key))),
                            chat_text = v \<rparr>) l
        = map (\<lambda>(key, v). \<lparr> chat_name = chat_name (chat ! nat (the (parsed_index key))),
                              chat_text = v \<rparr>) l"
    using elem by (intro map_cong) (auto simp: rev_image_eqI)
  then show ?thesis
    using rebuild_chat_ok [OF valid] by simp
qed

subsection \<open>No check of the parsed index\<close>

text \<open>
  C10, as the code has it. \<open>localizeChat\<close> indexes the input chat with
  \<open>parseInt(key.split("_")[1])\<close> for each key of the merged response \<open>localized\<close>, with no
  check of bounds or shape. The parsed index is the integer that follows the first
  underscore, whatever stands before the underscore and whatever follows the digits; a
  key with no underscore, or with no number after it, parses to \<open>NaN\<close>. If some key of
  \<open>localized\<close> parses to something that is not an index of the chat (so for \<open>chat_<i>\<close> with
  \<open>i\<close> at or past the length of the chat, and for a key with no underscore),
  \<open>localizeChat\<close> throws the TypeError of reading \<open>name\<close> of \<open>undefined\<close>. It returns a
  result exactly when every key of \<open>localized\<close> parses to an index within the chat, and the
  result then has, for each entry of \<open>localized\<close> in order, the name found at the parsed
  index and the entry's value as text.
\<close>

theorem localizeChat_unchecked_index:
  assumes "localizeRaw cfg remote workflowId
             (as_payload (keyed_record ''chat_'' (map chat_text chat))) params
           = (Inr localized, sent)"
  shows
   "(\<forall>a n r. 95 \<notin> set a \<and> (r = [] \<or> \<not> is_digit (hd r)) \<and>
              \<not> (n = 0 \<and> r \<noteq> [] \<and> (hd r = 120 \<or> hd r = 88)) \<longrightarrow>
        parsed_index (a @ 95 # show_nat n @ r) = Some (int n)) \<and>
    (\<forall>key. 95 \<notin> set key \<longrightarrow> parsed_index key = None) \<and>
    (\<forall>a b. 95 \<notin> set a \<and>
            (b = [] \<or> (\<not> is_ws (hd b) \<and> \<not> is_digit (hd b) \<and> hd b \<noteq> 43 \<and> hd b \<noteq> 45)) \<longrightarrow>
        parsed_index (a @ 95 # b) = None) \<and>
    ((\<exists>key\<in>set (map fst localized). \<not> (\<exists>i<length chat. parsed_index key = Some (int i))) \<longrightarrow>
       fst (localizeChat cfg remote workflowId chat params) = Inl undefined_name_error) \<and>
    ((\<exists>i\<ge>length chat. str ''chat_'' @ show_nat i \<in> set (map fst localized)) \<longrightarrow>
       fst (localizeChat cfg remote workflowId chat params) = Inl undefined_name_error) \<and>
    ((\<exists>key\<in>set (map fst localized). 95 \<notin> set key) \<longrightarrow>
       fst (localizeChat cfg remote workflowId chat params) = Inl undefined_name_error) \<and>
    ((\<exists>out. fst (localizeChat cfg remote workflowId chat params) = Inr out) \<longleftrightarrow>
       (\<forall>key\<in>set (map fst localized). \<exists>i<length chat. parsed_index key = Some (int i))) \<and>
    ((\<forall>key\<in>set (map fst localized). \<exists>i<length chat. parsed_index key = Some (int i)) \<longrightarrow>
       fst (localizeChat cfg remote workflowId chat params) =
         Inr (map (\<lambda>(key, v). \<lparr> chat_name = chat_name (chat ! nat (the (parsed_index key))),
                                 chat_text = v \<rparr>) localized))"
proof -
  let ?result = "fst (localizeChat cfg remote workflowId chat params)"
  let ?valid = "\<lambda>key. \<exists>i<length chat. parsed_index key = Some (int i)"
  have run: "?result = rebuild_chat chat localized"
    using assms by (simp add: localizeChat_def)
  have parse1: "\<forall>a n r. 95 \<notin> set a \<and> (r = [] \<or> \<not> is_digit (hd r)) \<and>
                  \<not> (n = 0 \<and> r \<noteq> [] \<and> (hd r = 120 \<or> hd r = 88)) \<longrightarrow>
                parsed_index (a @ 95 # show_nat n @ r) = Some (int n)"
  proof (intro allI impI)
    fix a r :: jsstring and n :: nat
    assume h: "95 \<notin> set a \<and> (r = [] \<or> \<not> is_digit (hd r)) \<and>
               \<not> (n = 0 \<and> r \<noteq> [] \<and> (hd r = 120 \<or> hd r = 88))"
    from h have "95 \<notin> set a" "r = [] \<or> \<not> is_digit (hd r)"
      "\<not> (n = 0 \<and> r \<noteq> [] \<and> (hd r = 120 \<or> hd r = 88))"
      by (rule conjunct1, rule conjunct2 [THEN conjunct1], rule conjunct2 [THEN conjunct2])
    then show "parsed_index (a @ 95 # show_nat n @ r) = Some (int n)"
      by (rule parsed_index_integer)
  qed
  have parse2: "\<forall>key. 95 \<notin> set key \<longrightarrow> parsed_index key = None"
    by (intro allI impI) (rule parsed_index_no_underscore)
  have parse3: "\<forall>a b. 95 \<notin> set a \<and>
                  (b = [] \<or> (\<not> is_ws (hd b) \<and> \<not> is_digit (hd b) \<and> hd b \<noteq> 43 \<and> hd b \<noteq> 45)) \<longrightarrow>
                parsed_index (a @ 95 # b) = None"
  proof (intro allI impI)
    fix a b :: jsstring
    assume h: "95 \<notin> set a \<and>
               (b = [] \<or> (\<not> is_ws (hd b) \<and> \<not> is_digit (hd b) \<and> hd b \<noteq> 43 \<and> hd b \<noteq> 45))"
    from h have "95 \<notin> set a"
      "b = [] \<or> (\<not> is_ws (hd b) \<and> \<not> is_digit (hd b) \<and> hd b \<noteq> 43 \<and> hd b \<noteq> 45)"
      by (rule conjunct1, rule conjunct2)
    then show "parsed_index (a @ 95 # b) = None"
      by (rule parsed_index_no_number)
  qed
  have fails: "?result = Inl undefined_name_error"
    if "\<exists>key\<in>set (map fst localized). \<not> ?valid key"
  proof -
    have "\<exists>key\<in>set (map fst localized). chat_at chat (parsed_index key) = None"
      using that by (simp add: chat_at_None_iff)
    then show ?thesis
      using rebuild_chat_fail run by simp
  qed
  have past: "?result = Inl undefined_name_error"
    if late: "\<exists>i\<ge>length chat. str ''chat_'' @ show_nat i \<in> set (map fst localized)"
  proof -
    obtain i where i: "length chat \<le> i" "str ''chat_'' @ show_nat i \<in> set (map fst localized)"
      using late by blast
    have "\<not> ?valid (str ''chat_'' @ show_nat i)"
      using i(1) by (simp add: parsed_index_chat_key)
    then have "\<exists>key\<in>set (map fst localized). \<not> ?valid key"
      using i(2) by (rule bexI)
    then show ?thesis
      by (rule fails)
  qed
  have bare: "?result = Inl undefined_name_error"
    if plain: "\<exists>key\<in>set (map fst localized). 95 \<notin> set key"
  proof -
    obtain key where key: "key \<in> set (map fst localized)" "95 \<notin> set key"
      using plain by blast
    have "\<not> ?valid key"
      using key(2) by (simp add: parsed_index_no_underscore)
    then have "\<exists>key\<in>set (map fst localized). \<not> ?valid key"
      using key(1) by (rule bexI)
    then show ?thesis
      by (rule fails)
  qed
  have returns: "?result = Inr (map (\<lambda>(key, v).
                    \<lparr> chat_name = chat_name (chat ! nat (the (parsed_index key))),
                      chat_text = v \<rparr>) localized)"
    if "\<forall>key\<in>set (map fst localized). ?valid key"
    using rebuild_chat_valid [OF that] run by simp
  have iff: "(\<exists>out. ?result = Inr out) \<longleftrightarrow> (\<forall>key\<in>set (map fst localized). ?valid key)"
  proof
    assume "\<exists>out. ?result = Inr out"
    then obtain out where out: "?result = Inr out"
      by (elim exE)
    show "\<forall>key\<in>set (map fst localized). ?valid key"
    proof (rule ccontr)
      assume "\<not> (\<forall>key\<in>set (map fst localized). ?valid key)"
      then have "\<exists>key\<in>set (map fst localized). \<not> ?valid key"
        by simp
      then have "?result = Inl undefined_name_error"
        by (rule fails)
      then show False
        using out by simp
    qed
  next
    assume "\<forall>key\<in>set (map fst localized). ?valid key"
    then have "?result = Inr (map (\<lambda>(key, v).
                    \<lparr> chat_name = chat_name (chat ! nat (the (parsed_index key))),
                      chat_text = v \<rparr>) localized)"
      by (rule returns)
    then show "\<exists>out. ?result = Inr out"
      by (rule exI)
  qed
  from fails have c4:
    "(\<exists>key\<in>set (map fst localized). \<not> ?valid key) \<longrightarrow> ?result = Inl undefined_name_error"
    by (rule impI)
  from past have c5:
    "(\<exists>i\<ge>length chat. str ''chat_'' @ show_nat i \<in> set (map fst localized)) \<longrightarrow>
       ?result = Inl undefined_name_error"
    by (rule impI)
  from bare have c6:
    "(\<exists>key\<in>set (map fst localized). 95 \<notin> set key) \<longrightarrow> ?result = Inl undefined_name_error"
    by (rule impI)
  from returns have c8:
    "(\<forall>key\<in>set (map fst localized). ?valid key) \<longrightarrow>
       ?result = Inr (map (\<lambda>(key, v).
                    \<lparr> chat_name = chat_name (chat ! nat (the (parsed_index key))),
                      chat_text = v \<rparr>) localized)"
    by (rule impI)
  show ?thesis
    by (rule conjI [OF parse1 conjI [OF parse2 conjI [OF parse3 conjI [OF c4 conjI [OF c5
          conjI [OF c6 conjI [OF iff c8]]]]]]])
qed

theorem localizeChat_unchecked_index_witness:
  "localizeRaw test_engine (fixed_service [(str ''chat_0'', str ''Hola''), (str ''chat_7'', str ''Adios'')])
     (str ''workflow'') (as_payload (keyed_record ''chat_'' (map chat_text two_messages))) en_es
   = (Inr [(str ''chat_0'', str ''Hola''), (str ''chat_7'', str ''Adios'')],
      [build_request test_engine (Some (str ''en'')) (str ''es'')
         [(str ''chat_0'', str ''Hello''), (str ''chat_1'', str ''Bye'')] None None (str ''workflow'') False]) \<and>
   parsed_index (str ''chat_7'') = Some 7 \<and>
   length two_messages = 2 \<and>
   fst (localizeChat test_engine
          (fixed_service [(str ''chat_0'', str ''Hola''), (str ''chat_7'', str ''Adios'')])
          (str ''workflow'') two_messages en_es)
   = Inl undefined_name_error \<and>
   localizeRaw test_engine (fixed_service [(str ''chat_1'', str ''Adios'')])
     (str ''workflow'') (as_payload (keyed_record ''chat_'' (map chat_text two_messages))) en_es
   = (Inr [(str ''chat_1'', str ''Adios'')],
      [build_request test_engine (Some (str ''en'')) (str ''es'')
         [(str ''chat_0'', str ''Hello''), (str ''chat_1'', str ''Bye'')] None None (str ''workflow'') False]) \<and>
   parsed_index (str ''chat_1'') = Some 1 \<and>
   fst (localizeChat test_engine (fixed_service [(str ''chat_1'', str ''Adios'')])
          (str ''workflow'') two_messages en_es)
   = Inr [\<lparr> chat_name = str ''Bob'', chat_text = str ''Adios'' \<rparr>] \<and>
   localizeRaw test_engine (fixed_service [(str ''__proto__'', str ''Hola'')])
     (str ''workflow'') (as_payload (keyed_record ''chat_'' (map chat_text two_messages))) en_es
   = (Inr [(str ''__proto__'', str ''Hola'')],
      [build_request test_engine (Some (str ''en'')) (str ''es'')
         [(str ''chat_0'', str ''Hello''), (str ''chat_1'', str ''Bye'')] None None (str ''workflow'') False]) \<and>
   parsed_index (str ''__proto__'') = None \<and>
   parsed_index (str ''chat'') = None \<and>
   fst (localizeChat test_engine (fixed_service [(str ''__proto__'', str ''Hola'')])
          (str ''workflow'') two_messages en_es)
   = Inl undefined_name_error"
proof -
  let ?sent = "[build_request test_engine (Some (str ''en'')) (str ''es'')
                  [(str ''chat_0'', str ''Hello''), (str ''chat_1'', str ''Bye'')] None None
                  (str ''workflow'') False]"
  let ?past = "[(str ''chat_0'', str ''Hola''), (str ''chat_7'', str ''Adios'')]"
  let ?short = "[(str ''chat_1'', str ''Adios'')]"
  let ?proto = "[(str ''__proto__'', str ''Hola'')]"
  have raw_past:
    "localizeRaw test_engine (fixed_service ?past) (str ''workflow'')
       (as_payload (keyed_record ''chat_'' (map chat_text two_messages))) en_es = (Inr ?past, ?sent)"
    by (simp add: fixture_eval orchestrator_eval client_eval chunker_eval object_eval string_eval
          show_nat_eval)
  have raw_short:
    "localizeRaw test_engine (fixed_service ?short) (str ''workflow'')
       (as_payload (keyed_record ''chat_'' (map chat_text two_messages))) en_es = (Inr ?short, ?sent)"
    by (simp add: fixture_eval orchestrator_eval client_eval chunker_eval object_eval string_eval
          show_nat_eval)
  have raw_proto:
    "localizeRaw test_engine (fixed_service ?proto) (str ''workflow'')
       (as_payload (keyed_record ''chat_'' (map chat_text two_messages))) en_es = (Inr ?proto, ?sent)"
    by (simp add: fixture_eval orchestrator_eval client_eval chunker_eval object_eval string_eval
          show_nat_eval)
  have p7: "parsed_index (str ''chat_7'') = Some 7"
    and p1: "parsed_index (str ''chat_1'') = Some 1"
    and pp: "parsed_index (str ''__proto__'') = None"
    and pc: "parsed_index (str ''chat'') = None"
    by (simp_all add: chat_eval string_eval is_digit_def)
  have len: "length two_messages = 2"
    by (simp add: two_messages_def)
  have "str ''chat_'' @ show_nat 7 \<in> set (map fst ?past)"
    by (simp add: show_nat_eval str_def)
  then have "\<exists>i\<ge>length two_messages. str ''chat_'' @ show_nat i \<in> set (map fst ?past)"
    using len by (intro exI [of _ 7]) simp
  with localizeChat_unchecked_index [OF raw_past]
  have r_past: "fst (localizeChat test_engine (fixed_service ?past) (str ''workflow'')
                       two_messages en_es) = Inl undefined_name_error"
    by (elim conjE) (erule (1) mp)
  have "\<exists>i<length two_messages. parsed_index (str ''chat_1'') = Some (int i)"
    using len p1 by (intro exI [of _ 1]) simp
  then have "\<forall>key\<in>set (map fst ?short). \<exists>i<length two_messages. parsed_index key = Some (int i)"
    by simp
  with localizeChat_unchecked_index [OF raw_short]
  have "fst (localizeChat test_engine (fixed_service ?short) (str ''workflow'') two_messages en_es)
        = Inr (map (\<lambda>(key, v). \<lparr> chat_name = chat_name (two_messages ! nat (the (parsed_index key))),
                                chat_text = v \<rparr>) ?short)"
    by (elim conjE) (erule (1) mp)
  then have r_short: "fst (localizeChat test_engine (fixed_service ?short) (str ''workflow'')
                        two_messages en_es)
                      = Inr [\<lparr> chat_name = str ''Bob'', chat_text = str ''Adios'' \<rparr>]"
    by (simp add: p1 two_messages_def)
  have "\<not> (\<exists>i<length two_messages. parsed_index (str ''__proto__'') = Some (int i))"
    by (simp add: pp)
  then have "\<exists>key\<in>set (map fst ?proto). \<not> (\<exists>i<length two_messages. parsed_index key = Some (int i))"
    by simp
  with localizeChat_unchecked_index [OF raw_proto]
  have r_proto: "fst (localizeChat test_engine (fixed_service ?proto) (str ''workflow'')
                        two_messages en_es) = Inl undefined_name_error"
    by (elim conjE) (erule (1) mp)
  show ?thesis
    by (intro conjI raw_past p7 len r_past raw_short p1 r_short raw_proto pp pc r_proto)
qed

text \<open>
  C10 as stated fails: the keys \<open>x_0\<close> and \<open>chat_0x1\<close> are not of the form \<open>chat_<i>\<close>, yet
  they parse to the indices 0 and 1 (the second as a hexadecimal number), both within a
  chat of two messages, and \<open>localizeChat\<close> returns a result instead of throwing.
\<close>

theorem localizeChat_key_form_counterexample:
  "take 5 (str ''x_0'') \<noteq> str ''chat_'' \<and>
   str ''chat_0x1'' \<noteq> str ''chat_'' @ show_nat 0 \<and>
   str ''chat_0x1'' \<noteq> str ''chat_'' @ show_nat 1 \<and>
   parsed_index (str ''x_0'') = Some 0 \<and>
   parsed_index (str ''chat_0x1'') = Some 1 \<and>
   fst (localizeRaw test_engine
          (fixed_service [(str ''x_0'', str ''Hola''), (str ''chat_0x1'', str ''Adios'')])
          (str ''workflow'') (as_payload (keyed_record ''chat_'' (map chat_text two_messages))) en_es)
   = Inr [(str ''x_0'', str ''Hola''), (str ''chat_0x1'', str ''Adios'')] \<and>
   fst (localizeChat test_engine
          (fixed_service [(str ''x_0'', str ''Hola''), (str ''chat_0x1'', str ''Adios'')])
          (str ''workflow'') two_messages en_es)
   = Inr [\<lparr> chat_name = str ''Alice'', chat_text = str ''Hola'' \<rparr>,
          \<lparr> chat_name = str ''Bob'', chat_text = str ''Adios'' \<rparr>]"
  by (simp add: fixture_eval orchestrator_eval client_eval chunker_eval object_eval string_eval
        chat_eval show_nat_eval)

subsection \<open>Names stay at their index when the response keeps the order of the keys\<close>

text \<open>
  C3, as the code has it. Let \<open>localized\<close> be the merged response that \<open>localizeChat\<close>
  obtained. If \<open>localized\<close> lists the synthesized keys in the order \<open>chat_0\<close>, ...,
  \<open>chat_{n-1}\<close>, the result has the length of the input, and its element at each index \<open>i\<close>
  carries the input's name at index \<open>i\<close> and, as text, the string that the response gives
  under \<open>chat_i\<close>.
\<close>

theorem localizeChat_keeps_names:
  assumes "localizeRaw cfg remote workflowId
             (as_payload (keyed_record ''chat_'' (map chat_text chat))) params
           = (Inr localized, sent)"
      and "map fst localized = map (\<lambda>i. str ''chat_'' @ show_nat i) [0..<length chat]"
  shows "\<exists>out. fst (localizeChat cfg remote workflowId chat params) = Inr out \<and>
           length out = length chat \<and>
           (\<forall>i<length chat.
              chat_name (out ! i) = chat_name (chat ! i) \<and>
              localized ! i = (str ''chat_'' @ show_nat i, chat_text (out ! i)))"
proof -
  have len: "length localized = length chat"
    using assms(2) by (metis length_map length_upt minus_nat.diff_0)
  have key: "fst (localized ! i) = str ''chat_'' @ show_nat i" if "i < length chat" for i
  proof -
    have "map fst localized ! i = map (\<lambda>i. str ''chat_'' @ show_nat i) [0..<length chat] ! i"
      by (simp only: assms(2))
    then show ?thesis
      using that len by simp
  qed
  have valid: "\<forall>key\<in>set (map fst localized). chat_at chat (parsed_index key) \<noteq> None"
    by (auto simp: assms(2) parsed_index_chat_key chat_at_def)
  define out where
    "out = map (\<lambda>(key, v). \<lparr> chat_name = chat_name (the (chat_at chat (parsed_index key))),
                              chat_text = v \<rparr>) localized"
  have run: "fst (localizeChat cfg remote workflowId chat params) = Inr out"
    using assms(1) rebuild_chat_ok [OF valid] by (simp add: localizeChat_def out_def)
  have elem: "chat_name (out ! i) = chat_name (chat ! i) \<and>
              localized ! i = (str ''chat_'' @ show_nat i, chat_text (out ! i))"
    if "i < length chat" for i
  proof -
    obtain k v where kv: "localized ! i = (k, v)" by (cases "localized ! i")
    have k: "k = str ''chat_'' @ show_nat i"
      using key [OF that] kv by simp
    have "out ! i = \<lparr> chat_name = chat_name (the (chat_at chat (parsed_index k))), chat_text = v \<rparr>"
      using that len kv by (simp add: out_def)
    then show ?thesis
      using that kv by (simp add: k parsed_index_chat_key chat_at_def)
  qed
  have "length out = length chat"
    by (simp add: out_def len)
  then show ?thesis
    using run elem by blast
qed

theorem localizeChat_keeps_names_witness:
  "localizeRaw test_engine (translating_service (\<lambda>v. str ''ES:'' @ v)) (str ''workflow'')
     (as_payload (keyed_record ''chat_'' (map chat_text two_messages))) en_es
   = (Inr [(str ''chat_0'', str ''ES:Hello''), (str ''chat_1'', str ''ES:Bye'')],
      [build_request test_engine (Some (str ''en'')) (str ''es'')
         [(str ''chat_0'', str ''Hello''), (str ''chat_1'', str ''Bye'')] None None (str ''workflow'') False]) \<and>
   map fst [(str ''chat_0'', str ''ES:Hello''), (str ''chat_1'', str ''ES:Bye'')]
   = map (\<lambda>i. str ''chat_'' @ show_nat i) [0..<length two_messages] \<and>
   fst (localizeChat test_engine (translating_service (\<lambda>v. str ''ES:'' @ v)) (str ''workflow'')
          two_messages en_es)
   = Inr [\<lparr> chat_name = str ''Alice'', chat_text = str ''ES:Hello'' \<rparr>,
          \<lparr> chat_name = str ''Bob'', chat_text = str ''ES:Bye'' \<rparr>]"
  using localizeChat_keeps_names
    [of test_engine "translating_service (\<lambda>v. str ''ES:'' @ v)" "str ''workflow''" two_messages en_es
        "[(str ''chat_0'', str ''ES:Hello''), (str ''chat_1'', str ''ES:Bye'')]"
        "[build_request test_engine (Some (str ''en'')) (str ''es'')
           [(str ''chat_0'', str ''Hello''), (str ''chat_1'', str ''Bye'')] None None (str ''workflow'') False]"]
  by (simp add: fixture_eval orchestrator_eval client_eval chunker_eval object_eval string_eval
        chat_eval show_nat_eval upt_rec)

text \<open>
  C3 as stated fails: a response that maps \<open>chat_0\<close> and \<open>chat_1\<close> to their translations but
  lists \<open>chat_1\<close> first gives a result whose element 0 carries the name and the translation
  of the input's element 1.
\<close>

theorem localizeChat_order_counterexample:
  "fst (localizeRaw test_engine (reversing_service (\<lambda>v. str ''ES:'' @ v)) (str ''workflow'')
          (as_payload (keyed_record ''chat_'' (map chat_text two_messages))) en_es)
   = Inr [(str ''chat_1'', str ''ES:Bye''), (str ''chat_0'', str ''ES:Hello'')] \<and>
   fst (localizeChat test_engine (reversing_service (\<lambda>v. str ''ES:'' @ v)) (str ''workflow'')
          two_messages en_es)
   = Inr [\<lparr> chat_name = str ''Bob'', chat_text = str ''ES:Bye'' \<rparr>,
          \<lparr> chat_name = str ''Alice'', chat_text = str ''ES:Hello'' \<rparr>] \<and>
   chat_name (two_messages ! 0) = str ''Alice''"
  by (simp add: fixture_eval orchestrator_eval client_eval chunker_eval object_eval string_eval
        chat_eval show_nat_eval)

section \<open>A service that answers key by key: the whole call\<close>

subsection \<open>The synthesized keys\<close>

lemma show_nat_inj: "show_nat a = show_nat b \<Longrightarrow> a = b"
  by (metis show_nat_value)

lemma map_fst_values: "map fst (map (\<lambda>(k, v). (k, f v)) c) = map fst c"
  by (induction c) auto

lemma map_snd_values: "map snd (map (\<lambda>(k, v). (k, f v)) c) = map f (map snd c)"
  by (induction c) auto

lemma map_fst_keys: "map fst (map (\<lambda>(i, s). (g i, s)) ps) = map g (map fst ps)"
  by (induction ps) auto

lemma map_snd_keys: "map snd (map (\<lambda>(i, s). (g i, s)) ps) = map snd ps"
  by (induction ps) auto

lemma chat_key_ordinary: "ordinary_key (str ''chat_'' @ show_nat i)"
  by (simp add: ordinary_key_def is_array_index_def is_digit_def str_def)

lemma keyed_record_snoc:
  "keyed_record prefix (xs @ [x]) =
     set_property (keyed_record prefix xs) (str prefix @ show_nat (length xs)) x"
  by (simp add: keyed_record_def enumerate_append_eq)

lemma keyed_record_chat:
  "keyed_record ''chat_'' xs = map (\<lambda>(i, s). (str ''chat_'' @ show_nat i, s)) (enumerate 0 xs)"
proof (induction xs rule: rev_induct)
  case Nil
  then show ?case by (simp add: keyed_record_def)
next
  case (snoc x xs)
  have keys: "map fst (keyed_record ''chat_'' xs) =
              map (\<lambda>i. str ''chat_'' @ show_nat i) [0..<length xs]"
    by (simp only: snoc.IH map_fst_keys map_fst_enumerate) simp
  have "str ''chat_'' @ show_nat (length xs) \<notin> set (map fst (keyed_record ''chat_'' xs))"
    unfolding keys by (auto dest: show_nat_inj)
  from set_property_fresh [OF chat_key_ordinary this]
  have "keyed_record ''chat_'' (xs @ [x]) =
        keyed_record ''chat_'' xs @ [(str ''chat_'' @ show_nat (length xs), x)]"
    by (simp only: keyed_record_snoc)
  then show ?case
    by (simp add: snoc.IH enumerate_append_eq)
qed

lemma keyed_record_chat_keys:
  "map fst (keyed_record ''chat_'' xs) = map (\<lambda>i. str ''chat_'' @ show_nat i) [0..<length xs]"
  by (simp only: keyed_record_chat map_fst_keys map_fst_enumerate) simp

lemma keyed_record_chat_values: "map snd (keyed_record ''chat_'' xs) = xs"
  by (simp only: keyed_record_chat map_snd_keys map_snd_enumerate)

lemma distinct_chat_keys: "distinct (map fst (keyed_record ''chat_'' xs))"
  unfolding keyed_record_chat_keys
  by (auto simp: distinct_map inj_on_def dest: show_nat_inj)

subsection \<open>Merging responses with fresh keys\<close>

lemma object_assign_fresh:
  "distinct (map fst target @ map fst source) \<Longrightarrow> \<forall>key\<in>set (map fst source). ordinary_key key \<Longrightarrow>
   object_assign target source = target @ source"
proof (induction source arbitrary: target)
  case Nil
  then show ?case by (simp add: object_assign_def)
next
  case (Cons e source)
  obtain key v where e: "e = (key, v)" by (cases e)
  have "set_property target key v = target @ [(key, v)]"
    using Cons.prems by (intro set_property_fresh) (auto simp: e)
  moreover have "object_assign (target @ [(key, v)]) source = (target @ [(key, v)]) @ source"
    using Cons.prems by (intro Cons.IH) (auto simp: e)
  ultimately show ?case
    by (simp add: object_assign_def e)
qed

lemma foldl_object_assign_fresh:
  "distinct (map fst acc @ map fst (concat sources)) \<Longrightarrow>
   \<forall>key\<in>set (map fst (concat sources)). ordinary_key key \<Longrightarrow>
   foldl object_assign acc sources = acc @ concat sources"
proof (induction sources arbitrary: acc)
  case Nil
  then show ?case by simp
next
  case (Cons source sources)
  have "object_assign acc source = acc @ source"
    using Cons.prems by (intro object_assign_fresh) auto
  moreover have "foldl object_assign (acc @ source) sources = (acc @ source) @ concat sources"
    using Cons.prems by (intro Cons.IH) auto
  ultimately show ?case by simp
qed

lemma object_assign_all_fresh:
  "distinct (map fst (concat sources)) \<Longrightarrow>
   \<forall>key\<in>set (map fst (concat sources)). ordinary_key key \<Longrightarrow>
   object_assign_all sources = concat sources"
  using foldl_object_assign_fresh [of "[]" sources] by (simp add: object_assign_all_def)

subsection \<open>The loop against the translating service\<close>

lemma localizeChunk_translating:
  "localizeChunk cfg (translating_service translate i) source target payload_data
     payload_reference payload_hints workflowId fastMode
   = Inr (map (\<lambda>(k, v). (k, translate v)) payload_data)"
  by (simp add: localizeChunk_def translating_service_def json_response_def build_request_def
        ok_def truthy_object_def nullish_or_def)

lemma localize_loop_translating:
  "fst (localize_loop cfg (translating_service translate) workflowId params i chunks processed sent)
   = Inr (processed @ map (map (\<lambda>(k, v). (k, translate v))) chunks)"
  by (induction chunks arbitrary: i processed sent)
     (simp_all add: localizeChunk_translating Let_def)

lemma string_entries_as_payload: "string_entries (as_payload c) = c"
  by (induction c) (auto simp: as_payload_def)

lemma as_payload_last_string: "c \<noteq> [] \<Longrightarrow> is_string (snd (last (as_payload c)))"
  by (cases c rule: rev_cases) (auto simp: as_payload_def is_string_def)

lemma map_fst_as_payload: "map fst (as_payload c) = map fst c"
  by (induction c) (auto simp: as_payload_def)

lemma string_entries_keys: "set (map fst (string_entries payload)) \<subseteq> set (map fst payload)"
  by (induction payload rule: string_entries.induct) auto

lemma string_entries_distinct:
  "distinct (map fst payload) \<Longrightarrow> distinct (map fst (string_entries payload))"
proof (induction payload rule: string_entries.induct)
  case (2 key s rest)
  then show ?case
    using string_entries_keys [of rest] by auto
qed simp_all

text \<open>
  The merged record for a payload with distinct ordinary keys that is empty or ends in a
  string: every string-valued entry, in its place, with its translation, and nothing else.
\<close>

lemma localizeRaw_translating_service:
  assumes "targetLocale params \<noteq> []"
      and "distinct (map fst payload)"
      and "\<forall>key\<in>set (map fst payload). ordinary_key key"
      and "payload = [] \<or> is_string (snd (last payload))"
  shows "fst (localizeRaw cfg (translating_service translate) workflowId payload params)
         = Inr (map (\<lambda>(k, v). (k, translate v)) (string_entries payload))"
proof -
  let ?chunks = "extractPayloadChunks cfg payload"
  let ?tr = "map (\<lambda>(k, v). (k, translate v))"
  let ?c = "string_entries payload"
  have chunks: "concat ?chunks = ?c"
    using assms(2,3,4) by (rule extractPayloadChunks_partition(1))
  have tr_concat: "concat (map ?tr ?chunks) = ?tr ?c"
    using chunks by (simp add: map_concat [symmetric])
  have keys: "map fst (concat (map ?tr ?chunks)) = map fst ?c"
    by (simp only: tr_concat map_fst_values)
  have "distinct (map fst ?c)"
    using assms(2) by (rule string_entries_distinct)
  moreover have "\<forall>key\<in>set (map fst ?c). ordinary_key key"
    using assms(3) string_entries_keys [of payload] by blast
  ultimately have "object_assign_all (map ?tr ?chunks) = concat (map ?tr ?chunks)"
    by (intro object_assign_all_fresh) (simp_all only: keys)
  then have merged: "object_assign_all (map ?tr ?chunks) = ?tr ?c"
    by (simp only: tr_concat)
  obtain r sent where run:
    "localize_loop cfg (translating_service translate) workflowId params 0 ?chunks [] [] = (r, sent)"
    by (cases "localize_loop cfg (translating_service translate) workflowId params 0 ?chunks [] []")
  have "r = Inr (map ?tr ?chunks)"
    using localize_loop_translating [of cfg translate workflowId params 0 ?chunks "[]" "[]"] run
    by simp
  then show ?thesis
    using assms(1) run merged by (simp add: localizeRaw_def)
qed

text \<open>
  So \<open>localizeObject\<close>, against such a service, returns the translated string-valued
  entries of the object, and only those.
\<close>

lemma localizeObject_translating_service:
  assumes "targetLocale params \<noteq> []"
      and "distinct (map fst obj)"
      and "\<forall>key\<in>set (map fst obj). ordinary_key key"
      and "obj = [] \<or> is_string (snd (last obj))"
  shows "fst (localizeObject cfg (translating_service translate) workflowId obj params)
         = Inr (map (\<lambda>(k, v). (k, translate v)) (string_entries obj))"
  unfolding localizeObject_def using assms by (rule localizeRaw_translating_service)

lemma localizeRaw_translating:
  assumes "targetLocale params \<noteq> []"
      and "distinct (map fst c)"
      and "\<forall>key\<in>set (map fst c). ordinary_key key"
  shows "fst (localizeRaw cfg (translating_service translate) workflowId (as_payload c) params)
         = Inr (map (\<lambda>(k, v). (k, translate v)) c)"
proof -
  have "as_payload c = [] \<or> is_string (snd (last (as_payload c)))"
    using as_payload_last_string [of c] by (cases c) (auto simp: as_payload_def)
  with assms show ?thesis
    using localizeRaw_translating_service [of params "as_payload c" cfg translate workflowId]
    by (simp add: map_fst_as_payload string_entries_as_payload)
qed

subsection \<open>Chat, end to end\<close>

lemma rebuild_chat_in_order:
  assumes "map fst l = map (\<lambda>i. str ''chat_'' @ show_nat i) [0..<length chat]"
  shows "rebuild_chat chat l =
           Inr (map (\<lambda>(m, v). \<lparr> chat_name = chat_name m, chat_text = v \<rparr>) (zip chat (map snd l)))"
proof -
  have len: "length l = length chat"
    using assms by (metis length_map length_upt minus_nat.diff_0)
  have valid: "\<forall>key\<in>set (map fst l). chat_at chat (parsed_index key) \<noteq> None"
    by (auto simp: assms parsed_index_chat_key chat_at_def)
  have "map (\<lambda>(key, v). \<lparr> chat_name = chat_name (the (chat_at chat (parsed_index key))),
                            chat_text = v \<rparr>) l
        = map (\<lambda>(m, v). \<lparr> chat_name = chat_name m, chat_text = v \<rparr>) (zip chat (map snd l))"
  proof (rule nth_equalityI)
    show "length (map (\<lambda>(key, v). \<lparr> chat_name = chat_name (the (chat_at chat (parsed_index key))),
                                     chat_text = v \<rparr>) l)
          = length (map (\<lambda>(m, v). \<lparr> chat_name = chat_name m, chat_text = v \<rparr>)
                      (zip chat (map snd l)))"
      by (simp add: len)
  next
    fix i
    assume "i < length (map (\<lambda>(key, v). \<lparr> chat_name = chat_name (the (chat_at chat (parsed_index key))),
                                            chat_text = v \<rparr>) l)"
    then have i: "i < length chat" by (simp add: len)
    have "map fst l ! i = str ''chat_'' @ show_nat i"
      using i by (simp add: assms)
    then have key: "fst (l ! i) = str ''chat_'' @ show_nat i"
      using i len by simp
    obtain k v where kv: "l ! i = (k, v)" by (cases "l ! i")
    show "map (\<lambda>(key, v). \<lparr> chat_name = chat_name (the (chat_at chat (parsed_index key))),
                              chat_text = v \<rparr>) l ! i
          = map (\<lambda>(m, v). \<lparr> chat_name = chat_name m, chat_text = v \<rparr>) (zip chat (map snd l)) ! i"
      using i len key kv by (simp add: parsed_index_chat_key chat_at_def)
  qed
  then show ?thesis
    using rebuild_chat_ok [OF valid] by simp
qed

text \<open>
  Against a service that answers every chunk key by key, in the order of the request,
  \<open>localizeChat\<close> returns the chat with every name in its place and every text translated,
  for every configuration and every length of the chat.
\<close>

lemma localizeChat_translating_service:
  assumes "targetLocale params \<noteq> []"
  shows "fst (localizeChat cfg (translating_service translate) workflowId chat params)
         = Inr (map (\<lambda>m. \<lparr> chat_name = chat_name m, chat_text = translate (chat_text m) \<rparr>) chat)"
proof -
  let ?chatRecord = "keyed_record ''chat_'' (map chat_text chat)"
  let ?localized = "map (\<lambda>(k, v). (k, translate v)) ?chatRecord"
  have ordinary: "\<forall>key\<in>set (map fst ?chatRecord). ordinary_key key"
    by (auto simp: keyed_record_chat_keys chat_key_ordinary)
  have raw: "fst (localizeRaw cfg (translating_service translate) workflowId (as_payload ?chatRecord) params)
             = Inr ?localized"
    using assms distinct_chat_keys ordinary by (rule localizeRaw_translating)
  have keys: "map fst ?localized = map (\<lambda>i. str ''chat_'' @ show_nat i) [0..<length chat]"
    by (simp only: map_fst_values keyed_record_chat_keys length_map)
  have "map snd ?localized = map translate (map chat_text chat)"
    by (simp only: map_snd_values keyed_record_chat_values)
  then have vals: "map snd ?localized = map (\<lambda>m. translate (chat_text m)) chat"
    by (simp add: comp_def)
  have "rebuild_chat chat ?localized =
          Inr (map (\<lambda>(m, v). \<lparr> chat_name = chat_name m, chat_text = v \<rparr>)
                 (zip chat (map (\<lambda>m. translate (chat_text m)) chat)))"
    using rebuild_chat_in_order [OF keys] by (simp only: vals)
  moreover have "map (\<lambda>(m, v). \<lparr> chat_name = chat_name m, chat_text = v \<rparr>)
                   (zip chat (map (\<lambda>m. translate (chat_text m)) chat))
                 = map (\<lambda>m. \<lparr> chat_name = chat_name m, chat_text = translate (chat_text m) \<rparr>) chat"
    by (induction chat) auto
  ultimately show ?thesis
    using raw
    by (cases "localizeRaw cfg (translating_service translate) workflowId (as_payload ?chatRecord) params")
       (auto simp: localizeChat_def)
qed

section \<open>HTML fallback: a translated text that also occurs in a script\<close>

text \<open>
  C4. \<open>localizeHtml\<close> is to leave the markup inside a \<open><script>\<close> block as it is. Without a
  \<open>DOMParser\<close> in the runtime the call is \<open>localizeHtmlSimple\<close>'s. Here the document
  \<open><html><body><p>Hi</p><script>var s = 'Hi';</script></body></html>\<close> is localized
  against a service that translates the one extracted text, \<open>Hi\<close>, to \<open>Hola\<close>: the text was
  extracted from the markup without its script block, but the translation is written back
  by replacing the original value everywhere in the markup, so the string literal inside
  the script block is rewritten too.
\<close>

theorem localizeHtmlSimple_rewrites_script:
  "fst (localizeHtmlSimple test_engine (translating_service (\<lambda>v. str ''Hola'')) (str ''workflow'')
          (str ''<html><body><p>Hi</p><script>var s = 'Hi';</script></body></html>'') en_es)
   = Inr (str ''<html lang='' @ [34] @ str ''es'' @ [34] @
          str ''><body><p>Hola</p><script>var s = 'Hola';</script></body></html>'')"
  by (simp add: html_eval fixture_eval orchestrator_eval client_eval chunker_eval object_eval
        string_eval show_nat_eval)

end
